theory Spec2Isabelle
  imports Main "HOL-Library.Word" "HOL-Library.Sublist"
begin

section \<open>GLib primitives used by the plugins\<close>

text \<open>
  The plugins are written against GLib. The few GLib routines they call are modelled
  here by what GLib does: a \<^verbatim>\<open>gchar*\<close> that may be \<^verbatim>\<open>NULL\<close> is a
  \<open>string option\<close>, a \<^verbatim>\<open>NULL\<close>-terminated \<^verbatim>\<open>gchar**\<close> vector is a
  \<open>string list\<close> (\<^verbatim>\<open>g_strv_length\<close> is \<open>length\<close>), and a \<^verbatim>\<open>GError**\<close>
  out-parameter is the \<open>GError option\<close> it holds when the function returns. Where a
  function reads through that pointer itself, the pointer is an argument of the model
  too.
\<close>

subsection \<open>Errors\<close>

datatype GQuark =
    BD_LVM_ERROR
  | BD_BTRFS_ERROR
  | BD_UTILS_EXEC_ERROR
  | BD_INIT_ERROR
  | Other_quark string

datatype error_code =
    BD_LVM_ERROR_PARSE
  | BD_BTRFS_ERROR_DEVICE
  | BD_UTILS_EXEC_ERROR_FAILED
  | BD_UTILS_EXEC_ERROR_NOOUT
  | BD_INIT_ERROR_PLUGINS_FAILED
  | BD_INIT_ERROR_NOT_IMPLEMENTED
  | Other_code int

record GError =
  domain :: GQuark
  code :: error_code
  message :: string

text \<open>\<^verbatim>\<open>g_set_error\<close> on an out-parameter: an error already stored is kept (GLib only warns).\<close>

definition g_set_error :: "GError option \<Rightarrow> GQuark \<Rightarrow> error_code \<Rightarrow> string \<Rightarrow> GError option" where
  "g_set_error error d c msg =
     (case error of
        None \<Rightarrow> Some \<lparr>domain = d, code = c, message = msg\<rparr>
      | Some old \<Rightarrow> Some old)"

definition g_clear_error :: "GError option \<Rightarrow> GError option" where
  "g_clear_error error = None"

definition g_error_matches :: "GError option \<Rightarrow> GQuark \<Rightarrow> error_code \<Rightarrow> bool" where
  "g_error_matches error d c =
     (case error of None \<Rightarrow> False | Some e \<Rightarrow> domain e = d \<and> code e = c)"

subsection \<open>Splitting strings\<close>

definition G_MAXINT :: nat where
  "G_MAXINT = 2147483647"

text \<open>
  The scanning loop shared by \<^verbatim>\<open>g_strsplit\<close> and \<^verbatim>\<open>g_strsplit_set\<close>: walk the
  string, cut at a delimiter while more than one token may still be produced, and put
  everything that is left into the last token. \<open>n\<close> is the number of tokens that may
  still be produced.
\<close>

fun split_tokens :: "(char \<Rightarrow> bool) \<Rightarrow> nat \<Rightarrow> string \<Rightarrow> string list" where
  "split_tokens is_delim n [] = [[]]"
| "split_tokens is_delim n (c # cs) =
     (if is_delim c \<and> 1 < n then [] # split_tokens is_delim (n - 1) cs
      else (case split_tokens is_delim n cs of
              [] \<Rightarrow> [[c]]
            | t # ts \<Rightarrow> (c # t) # ts))"

text \<open>
  \<^verbatim>\<open>g_strsplit_set (string, delimiters, max_tokens)\<close>: every character of
  \<open>delimiters\<close> separates; \<open>max_tokens < 1\<close> stands for \<^verbatim>\<open>G_MAXINT\<close>; the empty
  string gives the empty vector.
\<close>

definition g_strsplit_set :: "string \<Rightarrow> string \<Rightarrow> int \<Rightarrow> string list" where
  "g_strsplit_set str delimiters max_tokens =
     (if str = [] then []
      else split_tokens (\<lambda>c. c \<in> set delimiters)
             (if max_tokens < 1 then G_MAXINT else nat max_tokens) str)"

text \<open>
  \<^verbatim>\<open>g_strsplit (string, delimiter, max_tokens)\<close>, for the one-character delimiters
  (\<^verbatim>\<open>"="\<close> and \<^verbatim>\<open>"\n"\<close>) the plugins pass.
\<close>

definition g_strsplit :: "string \<Rightarrow> char \<Rightarrow> int \<Rightarrow> string list" where
  "g_strsplit str delimiter max_tokens =
     (if str = [] then []
      else split_tokens (\<lambda>c. c = delimiter)
             (if max_tokens < 1 then G_MAXINT else nat max_tokens) str)"

section \<open>The LVM plugin: parsing \<^verbatim>\<open>KEY=VALUE\<close> output\<close>

type_synonym GHashTable = "string \<rightharpoonup> string"

text \<open>The delimiter set \<^verbatim>\<open>" \t\n"\<close> of \<^verbatim>\<open>parse_lvm_vars\<close>.\<close>

definition lvm_vars_delimiters :: string where
  "lvm_vars_delimiters = [CHR '' '', CHR 0x09, CHR 0x0A]"

text \<open>
  One round of the loop of \<^verbatim>\<open>parse_lvm_vars\<close>: split the item at the first
  \<^verbatim>\<open>=\<close>; with two parts, insert them and count (\<^verbatim>\<open>num_items\<close> is a \<^verbatim>\<open>guint\<close>),
  otherwise drop the item.
\<close>

definition parse_item :: "string \<Rightarrow> GHashTable \<times> 32 word \<Rightarrow> GHashTable \<times> 32 word" where
  "parse_item item st =
     (case st of (table, num_items) \<Rightarrow>
        (let key_val = g_strsplit item (CHR ''='') 2 in
         if length key_val = 2
         then (table(key_val ! 0 \<mapsto> key_val ! 1), num_items + 1)
         else (table, num_items)))"

definition parse_lvm_vars :: "string \<Rightarrow> GHashTable \<times> 32 word" where
  "parse_lvm_vars str =
     fold parse_item (g_strsplit_set str lvm_vars_delimiters 0) (Map.empty, 0)"

text \<open>
  The reading of a token that the parser's documentation gives: a token counts when it
  holds a \<^verbatim>\<open>=\<close>; its key is the text before the first \<^verbatim>\<open>=\<close>, its value the text after
  it. These follow the specification's words and are compared with \<open>parse_lvm_vars\<close>
  below.
\<close>

definition token_has_eq :: "string \<Rightarrow> bool" where
  "token_has_eq tok = (CHR ''='' \<in> set tok)"

definition token_key :: "string \<Rightarrow> string" where
  "token_key tok = takeWhile (\<lambda>c. c \<noteq> CHR ''='') tok"

definition token_value :: "string \<Rightarrow> string" where
  "token_value tok = tl (dropWhile (\<lambda>c. c \<noteq> CHR ''='') tok)"

definition key_value_tokens :: "string list \<Rightarrow> (string \<times> string) list" where
  "key_value_tokens tokens =
     map (\<lambda>t. (token_key t, token_value t)) (filter token_has_eq tokens)"

section \<open>The LVM plugin: global configuration and the command wrappers\<close>

text \<open>
  The state of the plugin is the static \<^verbatim>\<open>global_config_str\<close> (\<^verbatim>\<open>NULL\<close> at start).
  What the plugin does to the world around it -- taking and releasing
  \<^verbatim>\<open>global_config_lock\<close>, reading and writing the configuration string, running an
  external command -- is recorded, in program order, in a trace.
\<close>

datatype event =
    Mutex_lock
  | Mutex_unlock
  | Read_config "string option"
  | Write_config "string option"
  | Exec "string list"

record lvm_state =
  global_config_str :: "string option"
  trace :: "event list"

definition lvm_initial_state :: lvm_state where
  "lvm_initial_state = \<lparr>global_config_str = None, trace = []\<rparr>"

definition log_event :: "event \<Rightarrow> lvm_state \<Rightarrow> lvm_state" where
  "log_event e s = s\<lparr>trace := trace s @ [e]\<rparr>"

definition g_mutex_lock :: "lvm_state \<Rightarrow> lvm_state" where
  "g_mutex_lock s = log_event Mutex_lock s"

definition g_mutex_unlock :: "lvm_state \<Rightarrow> lvm_state" where
  "g_mutex_unlock s = log_event Mutex_unlock s"

text \<open>
  The Command Executor (\<^verbatim>\<open>bd_utils_exec_and_report_error\<close>,
  \<^verbatim>\<open>bd_utils_exec_and_capture_output\<close>) lives in the utils library; the plugins only
  call it. It is a parameter here: the outcome of running the given argument vector,
  \<open>Inl\<close> the error it stores on failure, \<open>Inr\<close> the result on success.
\<close>

type_synonym exec_report = "string list \<Rightarrow> GError + unit"
type_synonym exec_capture = "string list \<Rightarrow> GError + string"

text \<open>
  The vector both wrappers build: \<^verbatim>\<open>"lvm"\<close>, the arguments, and in the slot after them
  either \<^verbatim>\<open>g_strdup_printf ("--config=%s", global_config_str)\<close> or \<^verbatim>\<open>NULL\<close>, which
  ends the vector.
\<close>

definition lvm_argv :: "string option \<Rightarrow> string list \<Rightarrow> string list" where
  "lvm_argv config args =
     ''lvm'' # args @ (case config of None \<Rightarrow> [] | Some c \<Rightarrow> [''--config='' @ c])"

definition call_lvm_and_report_error ::
  "exec_report \<Rightarrow> string list \<Rightarrow> lvm_state \<Rightarrow> lvm_state \<times> (GError + unit)" where
  "call_lvm_and_report_error exec args s =
     (let s1 = g_mutex_lock s;
          s2 = log_event (Read_config (global_config_str s1)) s1;
          argv = lvm_argv (global_config_str s1) args;
          success = exec argv;
          s3 = log_event (Exec argv) s2;
          s4 = g_mutex_unlock s3
      in (s4, success))"

definition call_lvm_and_capture_output ::
  "exec_capture \<Rightarrow> string list \<Rightarrow> lvm_state \<Rightarrow> lvm_state \<times> (GError + string)" where
  "call_lvm_and_capture_output exec args s =
     (let s1 = g_mutex_lock s;
          s2 = log_event (Read_config (global_config_str s1)) s1;
          argv = lvm_argv (global_config_str s1) args;
          success = exec argv;
          s3 = log_event (Exec argv) s2;
          s4 = g_mutex_unlock s3
      in (s4, success))"

text \<open>
  \<^verbatim>\<open>bd_lvm_set_global_config (new_config, error)\<close>: \<open>error\<close> is what the caller's
  out-parameter holds on entry; the result is the new state, the return value and what
  the out-parameter holds afterwards. \<^verbatim>\<open>g_strdup (NULL)\<close> is \<^verbatim>\<open>NULL\<close>.
\<close>

definition bd_lvm_set_global_config ::
  "string option \<Rightarrow> GError option \<Rightarrow> lvm_state \<Rightarrow> lvm_state \<times> bool \<times> GError option" where
  "bd_lvm_set_global_config new_config error s =
     (let s1 = g_mutex_lock s;
          s2 = log_event (Write_config new_config) (s1\<lparr>global_config_str := new_config\<rparr>);
          s3 = g_mutex_unlock s2
      in (s3, True, error))"

definition bd_lvm_get_global_config :: "lvm_state \<Rightarrow> lvm_state \<times> string" where
  "bd_lvm_get_global_config s =
     (let s1 = g_mutex_lock s;
          s2 = log_event (Read_config (global_config_str s1)) s1;
          ret = (case global_config_str s1 of None \<Rightarrow> [] | Some c \<Rightarrow> c);
          s3 = g_mutex_unlock s2
      in (s3, ret))"

section \<open>The LVM plugin: records and queries\<close>

text \<open>
  The three records, with the fields the plugin fills in. A \<^verbatim>\<open>gchar*\<close> field is
  \<^verbatim>\<open>NULL\<close> when its key is missing from the table (\<^verbatim>\<open>g_strdup (NULL)\<close>); a
  \<^verbatim>\<open>guint64\<close> field is then 0. Fields of the VG and LV records carry a suffix,
  since several of them share their C name with a field of another record.
\<close>

record BDLVMPVdata =
  pv_name :: "string option"
  pv_uuid :: "string option"
  pe_start :: "64 word"
  vg_name :: "string option"
  vg_uuid :: "string option"
  vg_size :: "64 word"
  vg_free :: "64 word"
  vg_extent_size :: "64 word"
  vg_extent_count :: "64 word"
  vg_free_count :: "64 word"
  vg_pv_count :: "64 word"

record BDLVMVGdata =
  name_vg :: "string option"
  uuid_vg :: "string option"
  size_vg :: "64 word"
  free_vg :: "64 word"
  extent_size_vg :: "64 word"
  extent_count_vg :: "64 word"
  free_count_vg :: "64 word"
  pv_count_vg :: "64 word"

record BDLVMLVdata =
  lv_name :: "string option"
  vg_name_lv :: "string option"
  uuid_lv :: "string option"
  size_lv :: "64 word"
  attr_lv :: "string option"
  segtype_lv :: "string option"

text \<open>
  \<^verbatim>\<open>g_ascii_strtoull (value, NULL, 0)\<close> is GLib's; the record builders take it as the
  parameter \<open>strtoull\<close>, and the worked examples pass the model of it given further
  down.
\<close>

definition lookup_uint64 :: "(string \<Rightarrow> 64 word) \<Rightarrow> GHashTable \<Rightarrow> string \<Rightarrow> 64 word" where
  "lookup_uint64 strtoull table key =
     (case table key of Some v \<Rightarrow> strtoull v | None \<Rightarrow> 0)"

definition get_pv_data_from_table :: "(string \<Rightarrow> 64 word) \<Rightarrow> GHashTable \<Rightarrow> BDLVMPVdata" where
  "get_pv_data_from_table strtoull table =
     \<lparr>pv_name = table ''LVM2_PV_NAME'',
      pv_uuid = table ''LVM2_PV_UUID'',
      pe_start = lookup_uint64 strtoull table ''LVM2_PE_START'',
      vg_name = table ''LVM2_VG_NAME'',
      vg_uuid = table ''LVM2_VG_UUID'',
      vg_size = lookup_uint64 strtoull table ''LVM2_VG_SIZE'',
      vg_free = lookup_uint64 strtoull table ''LVM2_VG_FREE'',
      vg_extent_size = lookup_uint64 strtoull table ''LVM2_VG_EXTENT_SIZE'',
      vg_extent_count = lookup_uint64 strtoull table ''LVM2_VG_EXTENT_COUNT'',
      vg_free_count = lookup_uint64 strtoull table ''LVM2_VG_FREE_COUNT'',
      vg_pv_count = lookup_uint64 strtoull table ''LVM2_PV_COUNT''\<rparr>"

definition get_vg_data_from_table :: "(string \<Rightarrow> 64 word) \<Rightarrow> GHashTable \<Rightarrow> BDLVMVGdata" where
  "get_vg_data_from_table strtoull table =
     \<lparr>name_vg = table ''LVM2_VG_NAME'',
      uuid_vg = table ''LVM2_VG_UUID'',
      size_vg = lookup_uint64 strtoull table ''LVM2_VG_SIZE'',
      free_vg = lookup_uint64 strtoull table ''LVM2_VG_FREE'',
      extent_size_vg = lookup_uint64 strtoull table ''LVM2_VG_EXTENT_SIZE'',
      extent_count_vg = lookup_uint64 strtoull table ''LVM2_VG_EXTENT_COUNT'',
      free_count_vg = lookup_uint64 strtoull table ''LVM2_VG_FREE_COUNT'',
      pv_count_vg = lookup_uint64 strtoull table ''LVM2_PV_COUNT''\<rparr>"

definition get_lv_data_from_table :: "(string \<Rightarrow> 64 word) \<Rightarrow> GHashTable \<Rightarrow> BDLVMLVdata" where
  "get_lv_data_from_table strtoull table =
     \<lparr>lv_name = table ''LVM2_LV_NAME'',
      vg_name_lv = table ''LVM2_VG_NAME'',
      uuid_lv = table ''LVM2_LV_UUID'',
      size_lv = lookup_uint64 strtoull table ''LVM2_LV_SIZE'',
      attr_lv = table ''LVM2_LV_ATTR'',
      segtype_lv = table ''LVM2_SEGTYPE''\<rparr>"

text \<open>
  The loop of the fetch-one-record queries over the output lines: parse the line, and
  return the record of the first line whose item count is the expected one.
\<close>

fun first_record :: "32 word \<Rightarrow> (GHashTable \<Rightarrow> 'a) \<Rightarrow> string list \<Rightarrow> 'a option" where
  "first_record expected build [] = None"
| "first_record expected build (line # lines) =
     (case parse_lvm_vars line of (table, num_items) \<Rightarrow>
        if num_items = expected then Some (build table)
        else first_record expected build lines)"

text \<open>The loop of the list-all queries: every line with the expected item count, in order.\<close>

fun all_records :: "32 word \<Rightarrow> (GHashTable \<Rightarrow> 'a) \<Rightarrow> string list \<Rightarrow> 'a list" where
  "all_records expected build [] = []"
| "all_records expected build (line # lines) =
     (case parse_lvm_vars line of (table, num_items) \<Rightarrow>
        if num_items = expected then build table # all_records expected build lines
        else all_records expected build lines)"

definition newline :: char where
  "newline = CHR 0x0A"

definition pv_fields :: string where
  "pv_fields = ''pv_name,pv_uuid,pe_start,vg_name,vg_uuid,vg_size,vg_free,'' @
               ''vg_extent_size,vg_extent_count,vg_free_count,pv_count''"

definition vg_fields :: string where
  "vg_fields = ''name,uuid,size,free,extent_size,extent_count,free_count,pv_count''"

definition lv_fields :: string where
  "lv_fields = ''vg_name,lv_name,lv_uuid,lv_size,lv_attr,segtype''"

definition pvs_args :: "string list" where
  "pvs_args = [''pvs'', ''--unit=b'', ''--nosuffix'', ''--nameprefixes'',
               ''--unquoted'', ''--noheadings'', ''-o'', pv_fields]"

definition vgs_args :: "string list" where
  "vgs_args = [''vgs'', ''--noheadings'', ''--nosuffix'', ''--nameprefixes'',
               ''--unquoted'', ''--units=b'', ''-o'', vg_fields]"

definition lvs_args :: "string list" where
  "lvs_args = [''lvs'', ''--noheadings'', ''--nosuffix'', ''--nameprefixes'',
               ''--unquoted'', ''--units=b'', ''-o'', lv_fields]"

text \<open>
  A trailing \<^verbatim>\<open>gchar*\<close> argument that may be \<^verbatim>\<open>NULL\<close> ends the argument array
  where it stands.
\<close>

definition opt_arg :: "string option \<Rightarrow> string list" where
  "opt_arg a = (case a of None \<Rightarrow> [] | Some x \<Rightarrow> [x])"

definition parse_error :: "string \<Rightarrow> GError option" where
  "parse_error msg = g_set_error None BD_LVM_ERROR BD_LVM_ERROR_PARSE msg"

definition bd_lvm_pvinfo ::
  "exec_capture \<Rightarrow> (string \<Rightarrow> 64 word) \<Rightarrow> string option \<Rightarrow> lvm_state
     \<Rightarrow> lvm_state \<times> BDLVMPVdata option \<times> GError option" where
  "bd_lvm_pvinfo exec strtoull device s =
     (case call_lvm_and_capture_output exec (pvs_args @ opt_arg device) s of
        (s', Inl e) \<Rightarrow> (s', None, Some e)
      | (s', Inr output) \<Rightarrow>
          (case first_record 11 (get_pv_data_from_table strtoull) (g_strsplit output newline 0) of
             Some data \<Rightarrow> (s', Some data, g_clear_error None)
           | None \<Rightarrow> (s', None, parse_error ''Failed to parse information about the PV'')))"

definition bd_lvm_vginfo ::
  "exec_capture \<Rightarrow> (string \<Rightarrow> 64 word) \<Rightarrow> string \<Rightarrow> lvm_state
     \<Rightarrow> lvm_state \<times> BDLVMVGdata option \<times> GError option" where
  "bd_lvm_vginfo exec strtoull vg s =
     (case call_lvm_and_capture_output exec (vgs_args @ [vg]) s of
        (s', Inl e) \<Rightarrow> (s', None, Some e)
      | (s', Inr output) \<Rightarrow>
          (case first_record 8 (get_vg_data_from_table strtoull) (g_strsplit output newline 0) of
             Some data \<Rightarrow> (s', Some data, None)
           | None \<Rightarrow> (s', None, parse_error ''Failed to parse information about the VG'')))"

definition bd_lvm_lvinfo ::
  "exec_capture \<Rightarrow> (string \<Rightarrow> 64 word) \<Rightarrow> string \<Rightarrow> string \<Rightarrow> lvm_state
     \<Rightarrow> lvm_state \<times> BDLVMLVdata option \<times> GError option" where
  "bd_lvm_lvinfo exec strtoull vg lv s =
     (case call_lvm_and_capture_output exec (lvs_args @ [vg @ ''/'' @ lv]) s of
        (s', Inl e) \<Rightarrow> (s', None, Some e)
      | (s', Inr output) \<Rightarrow>
          (case first_record 6 (get_lv_data_from_table strtoull) (g_strsplit output newline 0) of
             Some data \<Rightarrow> (s', Some data, None)
           | None \<Rightarrow> (s', None, parse_error ''Failed to parse information about the LV'')))"

text \<open>
  The list-all queries. A failed command whose error is the executor's
  \<^verbatim>\<open>BD_UTILS_EXEC_ERROR_NOOUT\<close> gives the empty array with the error cleared; output
  without a single usable line is a parse error.

  After a failed command these three functions read \<^verbatim>\<open>*error\<close> themselves
  (\<^verbatim>\<open>g_error_matches (*error, ...)\<close>), so for them the \<^verbatim>\<open>GError**\<close> argument is part
  of the model: it is \<^verbatim>\<open>NULL\<close>, which GLib allows a caller who does not want the
  error, or the address of the caller's slot, empty on entry. Reading \<^verbatim>\<open>*error\<close>
  through the \<^verbatim>\<open>NULL\<close> pointer is undefined; the result is then \<open>None\<close>.
  \<^verbatim>\<open>g_set_error\<close> and \<^verbatim>\<open>g_clear_error\<close> do nothing on a \<^verbatim>\<open>NULL\<close> pointer, so
  nothing is stored then.
\<close>

datatype error_pointer = Error_NULL | Error_slot

definition stored :: "error_pointer \<Rightarrow> GError option \<Rightarrow> GError option" where
  "stored error e = (case error of Error_NULL \<Rightarrow> None | Error_slot \<Rightarrow> e)"

definition list_result ::
  "error_pointer \<Rightarrow> 'a list \<Rightarrow> string \<Rightarrow> 'a list option \<times> GError option" where
  "list_result error records msg =
     (if length records = 0 then (None, stored error (parse_error msg)) else (Some records, None))"

definition bd_lvm_pvs ::
  "exec_capture \<Rightarrow> (string \<Rightarrow> 64 word) \<Rightarrow> error_pointer \<Rightarrow> lvm_state
     \<Rightarrow> (lvm_state \<times> BDLVMPVdata list option \<times> GError option) option" where
  "bd_lvm_pvs exec strtoull error s =
     (case call_lvm_and_capture_output exec pvs_args s of
        (s', Inl e) \<Rightarrow>
          (case error of
             Error_NULL \<Rightarrow> None
           | Error_slot \<Rightarrow>
               if g_error_matches (Some e) BD_UTILS_EXEC_ERROR BD_UTILS_EXEC_ERROR_NOOUT
               then Some (s', Some [], g_clear_error (Some e))
               else Some (s', None, Some e))
      | (s', Inr output) \<Rightarrow>
          Some (s', list_result error
                      (all_records 11 (get_pv_data_from_table strtoull) (g_strsplit output newline 0))
                      ''Failed to parse information about PVs''))"

definition bd_lvm_vgs ::
  "exec_capture \<Rightarrow> (string \<Rightarrow> 64 word) \<Rightarrow> error_pointer \<Rightarrow> lvm_state
     \<Rightarrow> (lvm_state \<times> BDLVMVGdata list option \<times> GError option) option" where
  "bd_lvm_vgs exec strtoull error s =
     (case call_lvm_and_capture_output exec vgs_args s of
        (s', Inl e) \<Rightarrow>
          (case error of
             Error_NULL \<Rightarrow> None
           | Error_slot \<Rightarrow>
               if g_error_matches (Some e) BD_UTILS_EXEC_ERROR BD_UTILS_EXEC_ERROR_NOOUT
               then Some (s', Some [], g_clear_error (Some e))
               else Some (s', None, Some e))
      | (s', Inr output) \<Rightarrow>
          Some (s', list_result error
                      (all_records 8 (get_vg_data_from_table strtoull) (g_strsplit output newline 0))
                      ''Failed to parse information about VGs''))"

definition bd_lvm_lvs ::
  "exec_capture \<Rightarrow> (string \<Rightarrow> 64 word) \<Rightarrow> string option \<Rightarrow> error_pointer \<Rightarrow> lvm_state
     \<Rightarrow> (lvm_state \<times> BDLVMLVdata list option \<times> GError option) option" where
  "bd_lvm_lvs exec strtoull vg error s =
     (case call_lvm_and_capture_output exec (lvs_args @ opt_arg vg) s of
        (s', Inl e) \<Rightarrow>
          (case error of
             Error_NULL \<Rightarrow> None
           | Error_slot \<Rightarrow>
               if g_error_matches (Some e) BD_UTILS_EXEC_ERROR BD_UTILS_EXEC_ERROR_NOOUT
               then Some (s', Some [], g_clear_error (Some e))
               else Some (s', None, Some e))
      | (s', Inr output) \<Rightarrow>
          Some (s', list_result error
                      (all_records 6 (get_lv_data_from_table strtoull) (g_strsplit output newline 0))
                      ''Failed to parse information about LVs''))"

subsection \<open>GLib's number reader\<close>

text \<open>
  \<^verbatim>\<open>g_ascii_strtoull (nptr, NULL, 0)\<close> as GLib computes it, for the worked examples:
  skip white space, take a sign, choose the base from the prefix (\<^verbatim>\<open>0x\<close> or \<^verbatim>\<open>0X\<close>:
  16, a leading \<^verbatim>\<open>0\<close>: 8, otherwise 10), read digits while they are below the base,
  and give 0 when no digit was read, \<^verbatim>\<open>G_MAXUINT64\<close> when the value does not fit,
  the value otherwise; a minus sign negates the result in \<^verbatim>\<open>guint64\<close>. The running
  value is a \<open>nat\<close>: the overflow test keeps it at or below \<^verbatim>\<open>G_MAXUINT64\<close>.
\<close>

definition G_MAXUINT64 :: nat where
  "G_MAXUINT64 = 18446744073709551615"

definition ISSPACE :: "char \<Rightarrow> bool" where
  "ISSPACE c = (c \<in> set [CHR '' '', CHR 0x0C, CHR 0x0A, CHR 0x0D, CHR 0x09, CHR 0x0B])"

definition digit_of :: "char \<Rightarrow> nat option" where
  "digit_of c =
     (let n = (of_char c :: nat) in
      if 48 \<le> n \<and> n \<le> 57 then Some (n - 48)
      else if 65 \<le> n \<and> n \<le> 90 then Some (n - 65 + 10)
      else if 97 \<le> n \<and> n \<le> 122 then Some (n - 97 + 10)
      else None)"

fun parse_digits :: "nat \<Rightarrow> string \<Rightarrow> nat \<Rightarrow> bool \<Rightarrow> nat \<times> bool" where
  "parse_digits base [] ui64 overflow = (ui64, overflow)"
| "parse_digits base (c # cs) ui64 overflow =
     (case digit_of c of
        None \<Rightarrow> (ui64, overflow)
      | Some d \<Rightarrow>
          if base \<le> d then (ui64, overflow)
          else if G_MAXUINT64 div base < ui64
                  \<or> (ui64 = G_MAXUINT64 div base \<and> G_MAXUINT64 mod base < d)
          then parse_digits base cs ui64 True
          else parse_digits base cs (ui64 * base + d) overflow)"

definition starts_number :: "nat \<Rightarrow> string \<Rightarrow> bool" where
  "starts_number base s =
     (case s of
        [] \<Rightarrow> False
      | c # cs \<Rightarrow> (case digit_of c of None \<Rightarrow> False | Some d \<Rightarrow> d < base))"

definition number_prefix :: "string \<Rightarrow> nat \<times> string" where
  "number_prefix s =
     (case s of
        [] \<Rightarrow> (10, s)
      | c # rest \<Rightarrow>
          if c = CHR ''0'' then
            (case rest of
               [] \<Rightarrow> (8, s)
             | x # rest' \<Rightarrow> if x = CHR ''x'' \<or> x = CHR ''X'' then (16, rest') else (8, s))
          else (10, s))"

definition g_ascii_strtoull :: "string \<Rightarrow> 64 word" where
  "g_ascii_strtoull nptr =
     (let s = dropWhile ISSPACE nptr;
          negative = (case s of [] \<Rightarrow> False | c # cs \<Rightarrow> c = CHR ''-'');
          s1 = (case s of [] \<Rightarrow> [] | c # cs \<Rightarrow> if c = CHR ''-'' \<or> c = CHR ''+'' then cs else s)
      in case number_prefix s1 of (base, digits) \<Rightarrow>
           (case parse_digits base digits 0 False of (ui64, overflow) \<Rightarrow>
              (let result = (if \<not> starts_number base digits then 0
                             else if overflow then G_MAXUINT64 else ui64)
               in if negative then - of_nat result else of_nat result)))"

section \<open>The Btrfs plugin: creating a volume\<close>

text \<open>
  \<^verbatim>\<open>access (path, F_OK) == 0\<close> is the parameter \<open>exists\<close>. The first loop of
  \<^verbatim>\<open>bd_btrfs_create_volume\<close> stops at the first device that does not exist and
  otherwise counts the devices in \<^verbatim>\<open>num_args\<close>, a \<^verbatim>\<open>guint8\<close>.
\<close>

fun check_devices :: "(string \<Rightarrow> bool) \<Rightarrow> string list \<Rightarrow> 8 word \<Rightarrow> string + 8 word" where
  "check_devices exists [] num_args = Inr num_args"
| "check_devices exists (d # ds) num_args =
     (if \<not> exists d then Inl d else check_devices exists ds (num_args + 1))"

text \<open>
  The copying loop \<^verbatim>\<open>for (device_p = devices; next_arg <= num_args; device_p++, next_arg++)\<close>.
  Both counters are \<^verbatim>\<open>guint8\<close>. Once \<open>device_p\<close> stands on the terminating
  \<^verbatim>\<open>NULL\<close>, one more round stores that \<^verbatim>\<open>NULL\<close> (which ends the vector); a round
  after that reads past the end of \<open>devices\<close>, which is undefined: \<open>None\<close>.
\<close>

fun copy_devices :: "8 word \<Rightarrow> 8 word \<Rightarrow> string list \<Rightarrow> string list option" where
  "copy_devices next_arg num_args [] =
     (if next_arg \<le> num_args \<and> next_arg + 1 \<le> num_args then None else Some [])"
| "copy_devices next_arg num_args (d # ds) =
     (if next_arg \<le> num_args
      then map_option ((#) d) (copy_devices (next_arg + 1) num_args ds)
      else Some [])"

definition named_option :: "string \<Rightarrow> string option \<Rightarrow> string list" where
  "named_option flag v = (case v of None \<Rightarrow> [] | Some x \<Rightarrow> [flag, x])"

definition device_error :: "string \<Rightarrow> GError option" where
  "device_error msg = g_set_error None BD_BTRFS_ERROR BD_BTRFS_ERROR_DEVICE msg"

text \<open>
  The result is the return value, the error stored, and the commands that were run, in
  order; \<open>None\<close> where the C code leaves defined behaviour (the \<^verbatim>\<open>guint8\<close> count has
  wrapped, and the vector of \<open>num_args + 2\<close> slots is too short for the options, or
  the copying loop runs off the device list).
\<close>

definition bd_btrfs_create_volume ::
  "(string \<Rightarrow> bool) \<Rightarrow> exec_report \<Rightarrow> string list option \<Rightarrow> string option \<Rightarrow> string option
     \<Rightarrow> string option \<Rightarrow> (bool \<times> GError option \<times> string list list) option" where
  "bd_btrfs_create_volume exists exec devices label data_level md_level =
     (case devices of
        None \<Rightarrow> Some (False, device_error ''No devices given'', [])
      | Some devs \<Rightarrow>
          if length devs < 1 then Some (False, device_error ''No devices given'', [])
          else
            (case check_devices exists devs 0 of
               Inl d \<Rightarrow> Some (False, device_error (''Device '' @ d @ '' does not exist''), [])
             | Inr counted \<Rightarrow>
                 (let opts = named_option ''--label'' label @ named_option ''--data'' data_level
                             @ named_option ''--metadata'' md_level;
                      num_args = counted + of_nat (length opts);
                      next_arg = 1 + of_nat (length opts)
                  in if unat num_args < length opts then None
                     else
                       (case copy_devices next_arg num_args devs of
                          None \<Rightarrow> None
                        | Some copied \<Rightarrow>
                            (let argv = ''mkfs.btrfs'' # opts @ copied in
                             (case exec argv of
                                Inl e \<Rightarrow> Some (False, Some e, [argv])
                              | Inr u \<Rightarrow> Some (True, None, [argv])))))))"

definition bd_btrfs_mkfs ::
  "(string \<Rightarrow> bool) \<Rightarrow> exec_report \<Rightarrow> string list option \<Rightarrow> string option \<Rightarrow> string option
     \<Rightarrow> string option \<Rightarrow> (bool \<times> GError option \<times> string list list) option" where
  "bd_btrfs_mkfs exists exec devices label data_level md_level =
     bd_btrfs_create_volume exists exec devices label data_level md_level"

section \<open>Initialisation of the library\<close>

text \<open>
  Modelled from the spec: \<^verbatim>\<open>bd_init\<close> is only declared in \<^verbatim>\<open>blockdev.h\<close>; its body
  and \<^verbatim>\<open>plugins.h\<close> (with \<^verbatim>\<open>BDPluginSpec\<close> and the enumeration of backends) are
  not among the sources. The model follows the specification of \<open>init\<close>: a backend is
  known by its name; \<open>known\<close> is the fixed enumeration of backend names in discovery
  order; \<open>load\<close> attempts to load the module of a backend from the given path (or
  from the default location) and gives the reason when it cannot. Every required spec
  is attempted, in discovery order; if any attempt fails the call fails with
  \<^verbatim>\<open>BD_INIT_ERROR_PLUGINS_FAILED\<close> and one message built from all failures. Without
  required specs every known backend is tried and failures do not count. The third
  component of the result is the list of loaded backends.
\<close>

record BDPluginSpec =
  name :: string
  so_name :: "string option"

type_synonym loader = "string \<Rightarrow> string option \<Rightarrow> string option"

definition discovery_order :: "string list \<Rightarrow> BDPluginSpec list \<Rightarrow> BDPluginSpec list" where
  "discovery_order known require_plugins =
     concat (map (\<lambda>k. filter (\<lambda>sp. name sp = k) require_plugins) known)"

definition load_failures :: "loader \<Rightarrow> BDPluginSpec list \<Rightarrow> (string \<times> string) list" where
  "load_failures load specs =
     concat (map (\<lambda>sp. case load (name sp) (so_name sp) of
                          None \<Rightarrow> []
                        | Some reason \<Rightarrow> [(name sp, reason)]) specs)"

definition failure_message :: "(string \<times> string) list \<Rightarrow> string" where
  "failure_message failures =
     concat (map (\<lambda>(n, reason). ''Failed to load plugin '' @ n @ '': '' @ reason @ ''; '') failures)"

definition bd_init ::
  "string list \<Rightarrow> loader \<Rightarrow> BDPluginSpec list \<Rightarrow> bool \<times> GError option \<times> string list" where
  "bd_init known load require_plugins =
     (if require_plugins = [] then (True, None, filter (\<lambda>k. load k None = None) known)
      else
        (let specs = discovery_order known require_plugins;
             failures = load_failures load specs
         in if failures = [] then (True, None, map name specs)
            else (False,
                  Some \<lparr>domain = BD_INIT_ERROR, code = BD_INIT_ERROR_PLUGINS_FAILED,
                        message = failure_message failures\<rparr>,
                  [])))"

section \<open>Worked inputs\<close>

text \<open>
  The line of the specification's parser example:
  \<^verbatim>\<open>"LVM2_PV_NAME=/dev/sda1 LVM2_PV_UUID=abc\tLVM2_PE_START=2048\n"\<close>.
\<close>

definition pv_line :: string where
  "pv_line = ''LVM2_PV_NAME=/dev/sda1 LVM2_PV_UUID=abc'' @ [CHR 0x09]
             @ ''LVM2_PE_START=2048'' @ [CHR 0x0A]"

text \<open>
  A line of eleven \<^verbatim>\<open>KEY=VALUE\<close> items in which \<^verbatim>\<open>LVM2_PV_NAME\<close> comes twice
  and \<^verbatim>\<open>LVM2_PV_COUNT\<close> is missing.
\<close>

definition dup_line :: string where
  "dup_line = ''LVM2_PV_NAME=/dev/sda1 LVM2_PV_NAME=/dev/sdb1 LVM2_PV_UUID=abc LVM2_PE_START=2048 '' @
              ''LVM2_VG_NAME=vg LVM2_VG_UUID=def LVM2_VG_SIZE=4096 LVM2_VG_FREE=1024 '' @
              ''LVM2_VG_EXTENT_SIZE=4 LVM2_VG_EXTENT_COUNT=1024 LVM2_VG_FREE_COUNT=256''"

text \<open>Executors for the worked examples: one under which every command succeeds, one
  that prints a given text, one that reports no output, one that reports a failure.\<close>

definition exec_ok :: exec_report where
  "exec_ok argv = Inr ()"

definition exec_prints :: "string \<Rightarrow> exec_capture" where
  "exec_prints output argv = Inr output"

definition exec_noout :: exec_capture where
  "exec_noout argv =
     Inl \<lparr>domain = BD_UTILS_EXEC_ERROR, code = BD_UTILS_EXEC_ERROR_NOOUT,
          message = ''Process didn't provide any data on standard output''\<rparr>"

definition exec_failed :: exec_capture where
  "exec_failed argv =
     Inl \<lparr>domain = BD_UTILS_EXEC_ERROR, code = BD_UTILS_EXEC_ERROR_FAILED,
          message = ''Process reported exit code 5''\<rparr>"

text \<open>Output lines of the three queries, as \<^verbatim>\<open>lvm\<close> prints them.\<close>

definition pv_info_line :: string where
  "pv_info_line = ''  LVM2_PV_NAME=/dev/sda1 LVM2_PV_UUID=abc LVM2_PE_START=2048 LVM2_VG_NAME=vg '' @
                  ''LVM2_VG_UUID=def LVM2_VG_SIZE=4096 LVM2_VG_FREE=1024 LVM2_VG_EXTENT_SIZE=4 '' @
                  ''LVM2_VG_EXTENT_COUNT=1024 LVM2_VG_FREE_COUNT=256 LVM2_PV_COUNT=1''"

definition vg_line :: string where
  "vg_line = ''  LVM2_VG_NAME=vg LVM2_VG_UUID=def LVM2_VG_SIZE=4096 LVM2_VG_FREE=1024 '' @
             ''LVM2_VG_EXTENT_SIZE=4 LVM2_VG_EXTENT_COUNT=1024 LVM2_VG_FREE_COUNT=256 LVM2_PV_COUNT=1''"

definition lv_root_line :: string where
  "lv_root_line = ''  LVM2_VG_NAME=vg LVM2_LV_NAME=root LVM2_LV_UUID=u1 LVM2_LV_SIZE=1024 '' @
                  ''LVM2_LV_ATTR=-wi-ao---- LVM2_SEGTYPE=linear''"

definition lv_swap_line :: string where
  "lv_swap_line = ''  LVM2_VG_NAME=vg LVM2_LV_NAME=swap LVM2_LV_UUID=u2 LVM2_LV_SIZE=512 '' @
                  ''LVM2_LV_ATTR=-wi-ao---- LVM2_SEGTYPE=linear''"

definition lv_output :: string where
  "lv_output = ''  WARNING: lvmetad is not running'' @ [newline] @ lv_root_line @ [newline]
               @ lv_swap_line @ [newline]"

text \<open>A file system for the worked examples, on which only \<^verbatim>\<open>/dev/sda\<close> exists.\<close>

definition only_sda :: "string \<Rightarrow> bool" where
  "only_sda path = (path = ''/dev/sda'')"

text \<open>
  For the worked example of initialisation: three known backends, a loader that finds
  only the LVM module, and a request for all three.
\<close>

definition example_known :: "string list" where
  "example_known = [''lvm'', ''btrfs'', ''crypto'']"

definition example_load :: loader where
  "example_load backend path =
     (if backend = ''lvm'' then None else Some (''cannot open libbd_'' @ backend @ ''.so''))"

definition example_specs :: "BDPluginSpec list" where
  "example_specs = [\<lparr>name = ''crypto'', so_name = None\<rparr>, \<lparr>name = ''lvm'', so_name = None\<rparr>,
                    \<lparr>name = ''btrfs'', so_name = Some ''/opt/libbd_btrfs.so''\<rparr>]"

section \<open>Properties of the parser\<close>

lemma split_tokens_le1: "n \<le> 1 \<Longrightarrow> split_tokens p n s = [s]"
  by (induction s) auto

lemma split_tokens_two:
  "split_tokens (\<lambda>c. c = d) 2 s =
     (if d \<in> set s then [takeWhile (\<lambda>c. c \<noteq> d) s, tl (dropWhile (\<lambda>c. c \<noteq> d) s)] else [s])"
  by (induction s) (auto simp: split_tokens_le1)

lemma g_strsplit_eq_two:
  "g_strsplit tok (CHR ''='') 2 =
     (if tok = [] then []
      else if token_has_eq tok then [token_key tok, token_value tok] else [tok])"
  by (simp add: g_strsplit_def split_tokens_two token_has_eq_def token_key_def token_value_def)

lemma parse_item_token:
  "parse_item tok (table, n) =
     (if token_has_eq tok then (table(token_key tok \<mapsto> token_value tok), n + 1) else (table, n))"
  by (auto simp: parse_item_def g_strsplit_eq_two Let_def token_has_eq_def)

lemma fold_parse_item:
  "fold parse_item toks (table, n) =
     (table ++ map_of (rev (key_value_tokens toks)), n + of_nat (length (key_value_tokens toks)))"
proof (induction toks arbitrary: table n)
  case Nil
  then show ?case by (simp add: key_value_tokens_def)
next
  case (Cons t ts)
  show ?case
  proof (cases "token_has_eq t")
    case True
    then show ?thesis
      by (simp add: parse_item_token Cons.IH key_value_tokens_def map_add_def fun_eq_iff
          split: option.splits) 
  next
    case False
    then show ?thesis
      by (simp add: parse_item_token Cons.IH key_value_tokens_def)
  qed
qed

lemma fold_parse_item_filter:
  "fold parse_item (filter token_has_eq toks) st = fold parse_item toks st"
proof (induction toks arbitrary: st)
  case Nil
  then show ?case by simp
next
  case (Cons t ts)
  then show ?case by (cases st) (simp add: parse_item_token)
qed

lemma length_split_tokens: "length (split_tokens p n s) \<le> max 1 n"
proof (induction s arbitrary: n)
  case Nil
  then show ?case by simp
next
  case (Cons c cs)
  show ?case
  proof (cases "p c \<and> 1 < n")
    case True
    with Cons.IH [of "n - 1"] show ?thesis by auto
  next
    case False
    with Cons.IH [of n] show ?thesis by (auto split: list.splits)
  qed
qed

lemma length_lvm_tokens: "length (g_strsplit_set str lvm_vars_delimiters 0) \<le> 2147483647"
  using length_split_tokens [of "\<lambda>c. c \<in> set lvm_vars_delimiters" G_MAXINT str]
  by (simp add: g_strsplit_set_def G_MAXINT_def)

lemma length_key_value_tokens: "length (key_value_tokens toks) \<le> length toks"
  by (simp add: key_value_tokens_def)

lemma parse_lvm_vars_map_of:
  "parse_lvm_vars str =
     (map_of (rev (key_value_tokens (g_strsplit_set str lvm_vars_delimiters 0))),
      of_nat (length (key_value_tokens (g_strsplit_set str lvm_vars_delimiters 0))))"
  by (simp add: parse_lvm_vars_def fold_parse_item)

lemma unat_num_items:
  "unat (snd (parse_lvm_vars str)) =
     length (key_value_tokens (g_strsplit_set str lvm_vars_delimiters 0))"
proof -
  let ?n = "length (key_value_tokens (g_strsplit_set str lvm_vars_delimiters 0))"
  have "?n \<le> 2147483647"
    using length_key_value_tokens length_lvm_tokens le_trans by blast
  then have "?n < 2 ^ LENGTH(32)" by simp
  then have "unat (of_nat ?n :: 32 word) = ?n"
    by (rule of_nat_inverse [OF refl])
  then show ?thesis by (simp add: parse_lvm_vars_map_of)
qed

lemma map_of_rev_last:
  "kvs = pre @ (k, v) # suf \<Longrightarrow> k \<notin> fst ` set suf \<Longrightarrow> map_of (rev kvs) k = Some v"
  by (simp add: map_add_Some_iff map_of_eq_None_iff)

lemma map_of_rev_last':
  "k \<notin> fst ` set suf \<Longrightarrow> map_of (rev (pre @ (k, v) # suf)) k = Some v"
  by (rule map_of_rev_last [OF refl])

lemma dom_parse:
  "dom (fst (parse_lvm_vars str)) =
     token_key ` {t \<in> set (g_strsplit_set str lvm_vars_delimiters 0). token_has_eq t}"
  by (auto simp: parse_lvm_vars_map_of dom_map_of_conv_image_fst key_value_tokens_def image_iff)

lemma parse_pv_line: "parse_lvm_vars pv_line =
  ([''LVM2_PV_NAME'' \<mapsto> ''/dev/sda1'', ''LVM2_PV_UUID'' \<mapsto> ''abc'', ''LVM2_PE_START'' \<mapsto> ''2048''], 3)"
  by (simp add: parse_lvm_vars_def pv_line_def g_strsplit_set_def lvm_vars_delimiters_def G_MAXINT_def
      parse_item_def g_strsplit_def)

lemma last_wins:
  assumes "g_strsplit_set str lvm_vars_delimiters 0 = pre @ tok # suf"
    and "token_has_eq tok"
    and "\<forall>t \<in> set suf. token_has_eq t \<longrightarrow> token_key t \<noteq> token_key tok"
  shows "fst (parse_lvm_vars str) (token_key tok) = Some (token_value tok)"
proof -
  have kv: "key_value_tokens (pre @ tok # suf) =
        key_value_tokens pre @ (token_key tok, token_value tok) # key_value_tokens suf"
    using assms(2) by (simp add: key_value_tokens_def)
  have "token_key tok \<notin> fst ` set (key_value_tokens suf)"
    using assms(3) by (auto simp: key_value_tokens_def)
  then have "map_of (rev (key_value_tokens pre @ (token_key tok, token_value tok) # key_value_tokens suf))
          (token_key tok) = Some (token_value tok)"
    by (rule map_of_rev_last')
  with kv show ?thesis
    by (simp only: parse_lvm_vars_map_of assms(1) fst_conv)
qed

lemma card_dom_lt:
  assumes "\<not> distinct (map fst (key_value_tokens (g_strsplit_set str lvm_vars_delimiters 0)))"
  shows "card (dom (fst (parse_lvm_vars str))) < unat (snd (parse_lvm_vars str))"
proof -
  let ?kvs = "key_value_tokens (g_strsplit_set str lvm_vars_delimiters 0)"
  have "dom (fst (parse_lvm_vars str)) = set (map fst ?kvs)"
    by (simp add: parse_lvm_vars_map_of dom_map_of_conv_image_fst)
  moreover have "card (set (map fst ?kvs)) \<le> length (map fst ?kvs)"
    by (rule card_length)
  moreover have "card (set (map fst ?kvs)) \<noteq> length (map fst ?kvs)"
    using assms card_distinct by blast
  ultimately show ?thesis by (simp add: unat_num_items)
qed

text \<open>
  Claim C2. \<^verbatim>\<open>parse_lvm_vars\<close> splits the line at every space, tab and newline; a
  token without \<^verbatim>\<open>=\<close> changes neither the table nor the count (parsing is the same
  loop over the tokens that hold a \<^verbatim>\<open>=\<close>); the keys of the table are the texts before
  the first \<^verbatim>\<open>=\<close> of those tokens; and the value bound to a key is the text after the
  first \<^verbatim>\<open>=\<close> of the last token with that key. On the line of the specification's
  example the table has exactly the three keys \<^verbatim>\<open>LVM2_PV_NAME\<close>, \<^verbatim>\<open>LVM2_PV_UUID\<close>,
  \<^verbatim>\<open>LVM2_PE_START\<close> with the values \<^verbatim>\<open>/dev/sda1\<close>, \<^verbatim>\<open>abc\<close>, \<^verbatim>\<open>2048\<close>, and the
  count is 3 although the line splits into four tokens, the last one empty.
\<close>

theorem parse_lvm_vars_tokens:
  "parse_lvm_vars str =
     fold parse_item (filter token_has_eq (g_strsplit_set str lvm_vars_delimiters 0)) (Map.empty, 0)
   \<and> dom (fst (parse_lvm_vars str)) =
       token_key ` {t \<in> set (g_strsplit_set str lvm_vars_delimiters 0). token_has_eq t}
   \<and> (\<forall>pre tok suf.
         g_strsplit_set str lvm_vars_delimiters 0 = pre @ tok # suf \<and> token_has_eq tok
         \<and> (\<forall>t \<in> set suf. token_has_eq t \<longrightarrow> token_key t \<noteq> token_key tok)
         \<longrightarrow> fst (parse_lvm_vars str) (token_key tok) = Some (token_value tok))
   \<and> parse_lvm_vars pv_line =
       ([''LVM2_PV_NAME'' \<mapsto> ''/dev/sda1'', ''LVM2_PV_UUID'' \<mapsto> ''abc'',
         ''LVM2_PE_START'' \<mapsto> ''2048''], 3)
   \<and> g_strsplit_set pv_line lvm_vars_delimiters 0 =
       [''LVM2_PV_NAME=/dev/sda1'', ''LVM2_PV_UUID=abc'', ''LVM2_PE_START=2048'', []]"
proof (intro conjI allI impI)
  show "parse_lvm_vars str =
     fold parse_item (filter token_has_eq (g_strsplit_set str lvm_vars_delimiters 0)) (Map.empty, 0)"
    by (simp only: parse_lvm_vars_def fold_parse_item_filter)
next
  show "dom (fst (parse_lvm_vars str)) =
       token_key ` {t \<in> set (g_strsplit_set str lvm_vars_delimiters 0). token_has_eq t}"
    by (rule dom_parse)
next
  fix pre tok suf
  assume "g_strsplit_set str lvm_vars_delimiters 0 = pre @ tok # suf \<and> token_has_eq tok
         \<and> (\<forall>t \<in> set suf. token_has_eq t \<longrightarrow> token_key t \<noteq> token_key tok)"
  then show "fst (parse_lvm_vars str) (token_key tok) = Some (token_value tok)"
    using last_wins by blast
next
  show "parse_lvm_vars pv_line =
       ([''LVM2_PV_NAME'' \<mapsto> ''/dev/sda1'', ''LVM2_PV_UUID'' \<mapsto> ''abc'',
         ''LVM2_PE_START'' \<mapsto> ''2048''], 3)"
    by (rule parse_pv_line)
next
  show "g_strsplit_set pv_line lvm_vars_delimiters 0 =
       [''LVM2_PV_NAME=/dev/sda1'', ''LVM2_PV_UUID=abc'', ''LVM2_PE_START=2048'', []]"
    by (simp add: pv_line_def g_strsplit_set_def lvm_vars_delimiters_def G_MAXINT_def)
qed

lemma tokens_repeat:
  "g_strsplit_set ''a=1 x b=2 a=3 y'' lvm_vars_delimiters 0 = [''a=1'', ''x'', ''b=2''] @ ''a=3'' # [''y'']"
  by (simp add: g_strsplit_set_def lvm_vars_delimiters_def G_MAXINT_def)

theorem parse_lvm_vars_tokens_witness:
  "g_strsplit_set ''a=1 x b=2 a=3 y'' lvm_vars_delimiters 0 = [''a=1'', ''x'', ''b=2''] @ ''a=3'' # [''y'']
   \<and> token_has_eq ''a=3''
   \<and> \<not> token_has_eq ''y''
   \<and> fst (parse_lvm_vars ''a=1 x b=2 a=3 y'') ''a'' = Some ''3''"
proof -
  have tok: "token_has_eq ''a=3''"
    by (simp add: token_has_eq_def)
  have suf: "\<forall>t \<in> set [''y'']. token_has_eq t \<longrightarrow> token_key t \<noteq> token_key ''a=3''"
    by (simp add: token_has_eq_def)
  have kv: "token_key ''a=3'' = ''a''" "token_value ''a=3'' = ''3''"
    by (simp_all add: token_key_def token_value_def)
  note last = parse_lvm_vars_tokens [of "''a=1 x b=2 a=3 y''", THEN conjunct2, THEN conjunct2,
      THEN conjunct1, rule_format, of "[''a=1'', ''x'', ''b=2'']" "''a=3''" "[''y'']"]
  have "fst (parse_lvm_vars ''a=1 x b=2 a=3 y'') (token_key ''a=3'') = Some (token_value ''a=3'')"
    by (rule last) (intro conjI tokens_repeat tok suf)
  then have res: "fst (parse_lvm_vars ''a=1 x b=2 a=3 y'') ''a'' = Some ''3''"
    by (simp only: kv)
  have stray: "\<not> token_has_eq ''y''"
    by (simp add: token_has_eq_def)
  show ?thesis
    by (rule conjI [OF tokens_repeat conjI [OF tok conjI [OF stray res]]])
qed

lemma dup_tokens:
  "g_strsplit_set dup_line lvm_vars_delimiters 0 =
     [''LVM2_PV_NAME=/dev/sda1'', ''LVM2_PV_NAME=/dev/sdb1'', ''LVM2_PV_UUID=abc'',
      ''LVM2_PE_START=2048'', ''LVM2_VG_NAME=vg'', ''LVM2_VG_UUID=def'', ''LVM2_VG_SIZE=4096'',
      ''LVM2_VG_FREE=1024'', ''LVM2_VG_EXTENT_SIZE=4'', ''LVM2_VG_EXTENT_COUNT=1024'',
      ''LVM2_VG_FREE_COUNT=256'']"
  by (simp add: dup_line_def g_strsplit_set_def lvm_vars_delimiters_def G_MAXINT_def)

lemma dup_kvs:
  "key_value_tokens (g_strsplit_set dup_line lvm_vars_delimiters 0) =
     [(''LVM2_PV_NAME'', ''/dev/sda1''), (''LVM2_PV_NAME'', ''/dev/sdb1''), (''LVM2_PV_UUID'', ''abc''),
      (''LVM2_PE_START'', ''2048''), (''LVM2_VG_NAME'', ''vg''), (''LVM2_VG_UUID'', ''def''),
      (''LVM2_VG_SIZE'', ''4096''), (''LVM2_VG_FREE'', ''1024''), (''LVM2_VG_EXTENT_SIZE'', ''4''),
      (''LVM2_VG_EXTENT_COUNT'', ''1024''), (''LVM2_VG_FREE_COUNT'', ''256'')]"
  by (simp add: dup_tokens key_value_tokens_def token_has_eq_def token_key_def token_value_def)

lemma dup_count: "snd (parse_lvm_vars dup_line) = 11"
  by (simp add: parse_lvm_vars_map_of dup_kvs)

lemma dup_card: "card (dom (fst (parse_lvm_vars dup_line))) = 10"
  by (simp add: parse_lvm_vars_map_of dup_kvs dom_map_of_conv_image_fst)

lemma dup_first_record:
  "first_record 11 build [dup_line] = Some (build (fst (parse_lvm_vars dup_line)))"
  using dup_count by (simp add: split_beta)

text \<open>
  Claim C8. The count \<^verbatim>\<open>parse_lvm_vars\<close> reports is the number of tokens that hold a
  \<^verbatim>\<open>=\<close>, repeated keys included (the \<^verbatim>\<open>guint\<close> cannot wrap: \<^verbatim>\<open>g_strsplit_set\<close>
  never gives more than \<^verbatim>\<open>G_MAXINT\<close> tokens). So when a key comes more than once, the
  count is strictly greater than the number of keys of the table. The line
  \<open>dup_line\<close> shows the consequence: with \<^verbatim>\<open>LVM2_PV_NAME\<close> twice it has the count
  11 that \<^verbatim>\<open>bd_lvm_pvinfo\<close> asks for, and a record is built from it, while its table
  holds 10 keys.
\<close>

theorem parse_lvm_vars_count:
  "unat (snd (parse_lvm_vars str)) =
     length (filter token_has_eq (g_strsplit_set str lvm_vars_delimiters 0))
   \<and> (\<not> distinct (map token_key (filter token_has_eq (g_strsplit_set str lvm_vars_delimiters 0)))
        \<longrightarrow> card (dom (fst (parse_lvm_vars str))) < unat (snd (parse_lvm_vars str)))
   \<and> snd (parse_lvm_vars dup_line) = 11
   \<and> card (dom (fst (parse_lvm_vars dup_line))) = 10
   \<and> first_record 11 (get_pv_data_from_table strtoull) [dup_line] =
       Some (get_pv_data_from_table strtoull (fst (parse_lvm_vars dup_line)))"
proof (intro conjI impI)
  show "unat (snd (parse_lvm_vars str)) =
     length (filter token_has_eq (g_strsplit_set str lvm_vars_delimiters 0))"
    by (simp add: unat_num_items key_value_tokens_def)
next
  assume "\<not> distinct (map token_key (filter token_has_eq (g_strsplit_set str lvm_vars_delimiters 0)))"
  then have "\<not> distinct (map fst (key_value_tokens (g_strsplit_set str lvm_vars_delimiters 0)))"
    by (simp add: key_value_tokens_def comp_def)
  then show "card (dom (fst (parse_lvm_vars str))) < unat (snd (parse_lvm_vars str))"
    by (rule card_dom_lt)
next
  show "snd (parse_lvm_vars dup_line) = 11" by (rule dup_count)
next
  show "card (dom (fst (parse_lvm_vars dup_line))) = 10" by (rule dup_card)
next
  show "first_record 11 (get_pv_data_from_table strtoull) [dup_line] =
       Some (get_pv_data_from_table strtoull (fst (parse_lvm_vars dup_line)))"
    by (rule dup_first_record)
qed

lemma tokens_twice:
  "g_strsplit_set ''a=1 a=2'' lvm_vars_delimiters 0 = [''a=1'', ''a=2'']"
  by (simp add: g_strsplit_set_def lvm_vars_delimiters_def G_MAXINT_def)

theorem parse_lvm_vars_count_witness:
  "\<not> distinct (map token_key (filter token_has_eq (g_strsplit_set ''a=1 a=2'' lvm_vars_delimiters 0)))
   \<and> card (dom (fst (parse_lvm_vars ''a=1 a=2''))) < unat (snd (parse_lvm_vars ''a=1 a=2''))"
proof -
  have dup: "\<not> distinct (map token_key (filter token_has_eq
               (g_strsplit_set ''a=1 a=2'' lvm_vars_delimiters 0)))"
    by (simp add: tokens_twice token_has_eq_def token_key_def)
  note lt = parse_lvm_vars_count [of "''a=1 a=2''", THEN conjunct2, THEN conjunct1, rule_format]
  from dup lt [OF dup] show ?thesis by (intro conjI)
qed

section \<open>Properties of the global configuration and the command wrappers\<close>

lemma call_lvm_and_report_error_eq:
  "call_lvm_and_report_error exec args s =
     (s\<lparr>trace := trace s @ [Mutex_lock, Read_config (global_config_str s),
                            Exec (lvm_argv (global_config_str s) args), Mutex_unlock]\<rparr>,
      exec (lvm_argv (global_config_str s) args))"
  by (simp add: call_lvm_and_report_error_def g_mutex_lock_def g_mutex_unlock_def log_event_def Let_def)

lemma call_lvm_and_capture_output_eq:
  "call_lvm_and_capture_output exec args s =
     (s\<lparr>trace := trace s @ [Mutex_lock, Read_config (global_config_str s),
                            Exec (lvm_argv (global_config_str s) args), Mutex_unlock]\<rparr>,
      exec (lvm_argv (global_config_str s) args))"
  by (simp add: call_lvm_and_capture_output_def g_mutex_lock_def g_mutex_unlock_def log_event_def Let_def)

lemma set_global_config_eq:
  "bd_lvm_set_global_config new_config error s =
     (\<lparr>global_config_str = new_config,
       trace = trace s @ [Mutex_lock, Write_config new_config, Mutex_unlock]\<rparr>, True, error)"
  by (simp add: bd_lvm_set_global_config_def g_mutex_lock_def g_mutex_unlock_def log_event_def Let_def)

lemma get_global_config_eq:
  "bd_lvm_get_global_config s =
     (s\<lparr>trace := trace s @ [Mutex_lock, Read_config (global_config_str s), Mutex_unlock]\<rparr>,
      case global_config_str s of None \<Rightarrow> [] | Some c \<Rightarrow> c)"
  by (simp add: bd_lvm_get_global_config_def g_mutex_lock_def g_mutex_unlock_def log_event_def Let_def)

text \<open>
  Claim C1, as stated, fails for the empty configuration string. After
  \<^verbatim>\<open>bd_lvm_set_global_config ("")\<close> the configuration value is empty
  (\<^verbatim>\<open>bd_lvm_get_global_config\<close> returns \<^verbatim>\<open>""\<close>), yet the wrapper still appends an
  argument, \<^verbatim>\<open>--config=\<close>: the code tests \<^verbatim>\<open>global_config_str\<close> against \<^verbatim>\<open>NULL\<close>,
  not against the empty string.
\<close>

theorem lvm_empty_config_counterexample:
  "snd (bd_lvm_get_global_config
          (fst (bd_lvm_set_global_config (Some []) None lvm_initial_state))) = []
   \<and> trace (fst (call_lvm_and_report_error exec_ok [''pvscan'']
                   (fst (bd_lvm_set_global_config (Some []) None lvm_initial_state)))) =
       [Mutex_lock, Write_config (Some []), Mutex_unlock,
        Mutex_lock, Read_config (Some []), Exec [''lvm'', ''pvscan'', ''--config=''], Mutex_unlock]"
  by (simp add: set_global_config_eq get_global_config_eq call_lvm_and_report_error_eq
      lvm_initial_state_def lvm_argv_def exec_ok_def)

text \<open>
  Claim C1, amended. For every argument list, both wrappers take the lock, read the
  configuration, run the executor on \<^verbatim>\<open>"lvm"\<close> followed by the arguments in order,
  followed by the one extra argument \<^verbatim>\<open>--config=<config>\<close> exactly when
  \<^verbatim>\<open>global_config_str\<close> is not \<^verbatim>\<open>NULL\<close> (the empty string included), and release
  the lock after the command has run; the value they read is the one last stored by
  \<^verbatim>\<open>bd_lvm_set_global_config\<close>.
\<close>

theorem lvm_wrappers_argv:
  "call_lvm_and_report_error exec args s =
     (s\<lparr>trace := trace s @
          [Mutex_lock, Read_config (global_config_str s),
           Exec (''lvm'' # args @ (case global_config_str s of None \<Rightarrow> [] | Some c \<Rightarrow> [''--config='' @ c])),
           Mutex_unlock]\<rparr>,
      exec (''lvm'' # args @ (case global_config_str s of None \<Rightarrow> [] | Some c \<Rightarrow> [''--config='' @ c])))
   \<and> call_lvm_and_capture_output exec' args s =
     (s\<lparr>trace := trace s @
          [Mutex_lock, Read_config (global_config_str s),
           Exec (''lvm'' # args @ (case global_config_str s of None \<Rightarrow> [] | Some c \<Rightarrow> [''--config='' @ c])),
           Mutex_unlock]\<rparr>,
      exec' (''lvm'' # args @ (case global_config_str s of None \<Rightarrow> [] | Some c \<Rightarrow> [''--config='' @ c])))
   \<and> global_config_str (fst (bd_lvm_set_global_config new_config error s)) = new_config"
  by (simp add: call_lvm_and_report_error_eq call_lvm_and_capture_output_eq lvm_argv_def
      set_global_config_eq)

text \<open>
  Claim C6. Setting the global configuration to a string and reading it back gives that
  string; setting it to \<^verbatim>\<open>NULL\<close> and reading it back gives the empty string.
\<close>

theorem global_config_round_trip:
  "snd (bd_lvm_get_global_config (fst (bd_lvm_set_global_config (Some c) error s))) = c
   \<and> snd (bd_lvm_get_global_config (fst (bd_lvm_set_global_config None error s))) = []"
  by (simp add: set_global_config_eq get_global_config_eq)

text \<open>
  Claim C10. \<^verbatim>\<open>bd_lvm_set_global_config\<close> returns \<^verbatim>\<open>TRUE\<close> for every input,
  \<^verbatim>\<open>NULL\<close> and the empty string included, and leaves the error out-parameter as it
  found it.
\<close>

theorem set_global_config_infallible:
  "snd (bd_lvm_set_global_config new_config error s) = (True, error)"
  by (simp add: set_global_config_eq)

section \<open>Properties of the queries\<close>

lemma first_record_find:
  "first_record n build lines =
     map_option (\<lambda>l. build (fst (parse_lvm_vars l))) (find (\<lambda>l. snd (parse_lvm_vars l) = n) lines)"
  by (induction lines) (auto simp: split_beta)

lemma all_records_filter:
  "all_records n build lines =
     map (\<lambda>l. build (fst (parse_lvm_vars l))) (filter (\<lambda>l. snd (parse_lvm_vars l) = n) lines)"
  by (induction lines) (auto simp: split_beta)

lemma pvinfo_success:
  assumes "exec (lvm_argv (global_config_str s) (pvs_args @ opt_arg device)) = Inr output"
  shows "snd (bd_lvm_pvinfo exec strtoull device s) =
     (case find (\<lambda>l. snd (parse_lvm_vars l) = 11) (g_strsplit output newline 0) of
        Some l \<Rightarrow> (Some (get_pv_data_from_table strtoull (fst (parse_lvm_vars l))), None)
      | None \<Rightarrow> (None, Some \<lparr>domain = BD_LVM_ERROR, code = BD_LVM_ERROR_PARSE,
                             message = ''Failed to parse information about the PV''\<rparr>))"
  using assms
  by (simp add: bd_lvm_pvinfo_def call_lvm_and_capture_output_eq first_record_find parse_error_def
      g_set_error_def g_clear_error_def split: option.splits)

lemma vginfo_success:
  assumes "exec (lvm_argv (global_config_str s) (vgs_args @ [vg])) = Inr output"
  shows "snd (bd_lvm_vginfo exec strtoull vg s) =
     (case find (\<lambda>l. snd (parse_lvm_vars l) = 8) (g_strsplit output newline 0) of
        Some l \<Rightarrow> (Some (get_vg_data_from_table strtoull (fst (parse_lvm_vars l))), None)
      | None \<Rightarrow> (None, Some \<lparr>domain = BD_LVM_ERROR, code = BD_LVM_ERROR_PARSE,
                             message = ''Failed to parse information about the VG''\<rparr>))"
  using assms
  by (simp add: bd_lvm_vginfo_def call_lvm_and_capture_output_eq first_record_find parse_error_def
      g_set_error_def split: option.splits)

lemma lvinfo_success:
  assumes "exec (lvm_argv (global_config_str s) (lvs_args @ [vg @ ''/'' @ lv])) = Inr output"
  shows "snd (bd_lvm_lvinfo exec strtoull vg lv s) =
     (case find (\<lambda>l. snd (parse_lvm_vars l) = 6) (g_strsplit output newline 0) of
        Some l \<Rightarrow> (Some (get_lv_data_from_table strtoull (fst (parse_lvm_vars l))), None)
      | None \<Rightarrow> (None, Some \<lparr>domain = BD_LVM_ERROR, code = BD_LVM_ERROR_PARSE,
                             message = ''Failed to parse information about the LV''\<rparr>))"
  using assms
  by (simp add: bd_lvm_lvinfo_def call_lvm_and_capture_output_eq first_record_find parse_error_def
      g_set_error_def split: option.splits)

lemma pvs_failure:
  assumes "exec (lvm_argv (global_config_str s) pvs_args) = Inl e"
  shows "bd_lvm_pvs exec strtoull Error_NULL s = None"
    and "map_option snd (bd_lvm_pvs exec strtoull Error_slot s) =
     Some (if domain e = BD_UTILS_EXEC_ERROR \<and> code e = BD_UTILS_EXEC_ERROR_NOOUT
           then (Some [], None) else (None, Some e))"
  using assms
  by (simp_all add: bd_lvm_pvs_def call_lvm_and_capture_output_eq g_error_matches_def g_clear_error_def)

lemma vgs_failure:
  assumes "exec (lvm_argv (global_config_str s) vgs_args) = Inl e"
  shows "bd_lvm_vgs exec strtoull Error_NULL s = None"
    and "map_option snd (bd_lvm_vgs exec strtoull Error_slot s) =
     Some (if domain e = BD_UTILS_EXEC_ERROR \<and> code e = BD_UTILS_EXEC_ERROR_NOOUT
           then (Some [], None) else (None, Some e))"
  using assms
  by (simp_all add: bd_lvm_vgs_def call_lvm_and_capture_output_eq g_error_matches_def g_clear_error_def)

lemma lvs_failure:
  assumes "exec (lvm_argv (global_config_str s) (lvs_args @ opt_arg vg)) = Inl e"
  shows "bd_lvm_lvs exec strtoull vg Error_NULL s = None"
    and "map_option snd (bd_lvm_lvs exec strtoull vg Error_slot s) =
     Some (if domain e = BD_UTILS_EXEC_ERROR \<and> code e = BD_UTILS_EXEC_ERROR_NOOUT
           then (Some [], None) else (None, Some e))"
  using assms
  by (simp_all add: bd_lvm_lvs_def call_lvm_and_capture_output_eq g_error_matches_def g_clear_error_def)

text \<open>
  Claim C3. When the command of \<^verbatim>\<open>bd_lvm_pvs\<close>, \<^verbatim>\<open>bd_lvm_vgs\<close> or \<^verbatim>\<open>bd_lvm_lvs\<close>
  fails and the caller passed a slot for the error, the function clears the executor's
  no-output error and returns the empty array, and with any other error returns
  \<^verbatim>\<open>NULL\<close> and leaves that error in the slot. When the caller passed \<^verbatim>\<open>NULL\<close> for
  the error, the same failure makes the function read \<^verbatim>\<open>*error\<close> through the
  \<^verbatim>\<open>NULL\<close> pointer: it returns neither the empty array nor \<^verbatim>\<open>NULL\<close>.
\<close>

theorem list_queries_command_failure:
  "(exec (lvm_argv (global_config_str s) pvs_args) = Inl e \<longrightarrow>
      bd_lvm_pvs exec strtoull Error_NULL s = None
      \<and> map_option snd (bd_lvm_pvs exec strtoull Error_slot s) =
          Some (if domain e = BD_UTILS_EXEC_ERROR \<and> code e = BD_UTILS_EXEC_ERROR_NOOUT
                then (Some [], None) else (None, Some e)))
   \<and> (exec (lvm_argv (global_config_str s) vgs_args) = Inl e \<longrightarrow>
      bd_lvm_vgs exec strtoull Error_NULL s = None
      \<and> map_option snd (bd_lvm_vgs exec strtoull Error_slot s) =
          Some (if domain e = BD_UTILS_EXEC_ERROR \<and> code e = BD_UTILS_EXEC_ERROR_NOOUT
                then (Some [], None) else (None, Some e)))
   \<and> (exec (lvm_argv (global_config_str s) (lvs_args @ opt_arg vg)) = Inl e \<longrightarrow>
      bd_lvm_lvs exec strtoull vg Error_NULL s = None
      \<and> map_option snd (bd_lvm_lvs exec strtoull vg Error_slot s) =
          Some (if domain e = BD_UTILS_EXEC_ERROR \<and> code e = BD_UTILS_EXEC_ERROR_NOOUT
                then (Some [], None) else (None, Some e)))"
  by (intro conjI impI)
    (erule pvs_failure vgs_failure lvs_failure)+

theorem list_queries_command_failure_witness:
  "exec_noout (lvm_argv (global_config_str lvm_initial_state) pvs_args) = exec_noout []
   \<and> exec_failed (lvm_argv (global_config_str lvm_initial_state) pvs_args) = exec_failed []
   \<and> bd_lvm_pvs exec_noout g_ascii_strtoull Error_NULL lvm_initial_state = None
   \<and> bd_lvm_vgs exec_noout g_ascii_strtoull Error_NULL lvm_initial_state = None
   \<and> bd_lvm_lvs exec_noout g_ascii_strtoull (Some ''vg'') Error_NULL lvm_initial_state = None
   \<and> bd_lvm_pvs exec_failed g_ascii_strtoull Error_NULL lvm_initial_state = None
   \<and> map_option snd (bd_lvm_pvs exec_noout g_ascii_strtoull Error_slot lvm_initial_state) =
       Some (Some [], None)
   \<and> map_option snd (bd_lvm_vgs exec_noout g_ascii_strtoull Error_slot lvm_initial_state) =
       Some (Some [], None)
   \<and> map_option snd (bd_lvm_lvs exec_noout g_ascii_strtoull (Some ''vg'') Error_slot lvm_initial_state) =
       Some (Some [], None)
   \<and> map_option snd (bd_lvm_pvs exec_failed g_ascii_strtoull Error_slot lvm_initial_state) =
       Some (None, Some \<lparr>domain = BD_UTILS_EXEC_ERROR, code = BD_UTILS_EXEC_ERROR_FAILED,
                          message = ''Process reported exit code 5''\<rparr>)"
proof -
  let ?noout = "\<lparr>domain = BD_UTILS_EXEC_ERROR, code = BD_UTILS_EXEC_ERROR_NOOUT,
                  message = ''Process didn't provide any data on standard output''\<rparr>"
  let ?failed = "\<lparr>domain = BD_UTILS_EXEC_ERROR, code = BD_UTILS_EXEC_ERROR_FAILED,
                   message = ''Process reported exit code 5''\<rparr>"
  have n: "\<And>argv. exec_noout argv = Inl ?noout" by (simp add: exec_noout_def)
  have f: "\<And>argv. exec_failed argv = Inl ?failed" by (simp add: exec_failed_def)
  note T = list_queries_command_failure
    [of exec_noout lvm_initial_state ?noout g_ascii_strtoull "Some ''vg''"]
  note F = list_queries_command_failure
    [of exec_failed lvm_initial_state ?failed g_ascii_strtoull "Some ''vg''"]
  note pv = T [THEN conjunct1, rule_format, OF n]
  note vg = T [THEN conjunct2, THEN conjunct1, rule_format, OF n]
  note lv = T [THEN conjunct2, THEN conjunct2, rule_format, OF n]
  note pf = F [THEN conjunct1, rule_format, OF f]
  have 1: "map_option snd (bd_lvm_pvs exec_noout g_ascii_strtoull Error_slot lvm_initial_state) =
       Some (Some [], None)"
    using pv [THEN conjunct2] by simp
  have 2: "map_option snd (bd_lvm_vgs exec_noout g_ascii_strtoull Error_slot lvm_initial_state) =
       Some (Some [], None)"
    using vg [THEN conjunct2] by simp
  have 3: "map_option snd (bd_lvm_lvs exec_noout g_ascii_strtoull (Some ''vg'') Error_slot lvm_initial_state) =
       Some (Some [], None)"
    using lv [THEN conjunct2] by simp
  have 4: "map_option snd (bd_lvm_pvs exec_failed g_ascii_strtoull Error_slot lvm_initial_state) =
       Some (None, Some ?failed)"
    using pf [THEN conjunct2] by simp
  have a: "exec_noout (lvm_argv (global_config_str lvm_initial_state) pvs_args) = exec_noout []"
    by (simp only: n)
  have b: "exec_failed (lvm_argv (global_config_str lvm_initial_state) pvs_args) = exec_failed []"
    by (simp only: f)
  show ?thesis
    by (intro conjI a b pv [THEN conjunct1] vg [THEN conjunct1] lv [THEN conjunct1]
        pf [THEN conjunct1] 1 2 3 4)
qed



text \<open>
  Claim C4. When the command of \<^verbatim>\<open>bd_lvm_pvinfo\<close>, \<^verbatim>\<open>bd_lvm_vginfo\<close> or
  \<^verbatim>\<open>bd_lvm_lvinfo\<close> succeeds with some output, the function returns the record built
  from the first output line whose item count is 11, 8 or 6 respectively, with no error;
  the lines after that one play no part (\<open>find\<close> gives the first such line whatever
  follows it). If no line has that count, it returns \<^verbatim>\<open>NULL\<close> with the error
  \<^verbatim>\<open>BD_LVM_ERROR_PARSE\<close>. The record built from a line holds, field by field, the
  values of the line's keys: a string field is the value of its key (\<^verbatim>\<open>NULL\<close> when
  the key is missing), a number field the converted value (0 when the key is missing).
\<close>

theorem fetch_one_record:
  "(exec (lvm_argv (global_config_str s) (pvs_args @ opt_arg device)) = Inr output \<longrightarrow>
      snd (bd_lvm_pvinfo exec strtoull device s) =
        (case find (\<lambda>l. snd (parse_lvm_vars l) = 11) (g_strsplit output newline 0) of
           Some l \<Rightarrow> (Some (get_pv_data_from_table strtoull (fst (parse_lvm_vars l))), None)
         | None \<Rightarrow> (None, Some \<lparr>domain = BD_LVM_ERROR, code = BD_LVM_ERROR_PARSE,
                                message = ''Failed to parse information about the PV''\<rparr>)))
   \<and> (exec (lvm_argv (global_config_str s) (vgs_args @ [vg])) = Inr output \<longrightarrow>
      snd (bd_lvm_vginfo exec strtoull vg s) =
        (case find (\<lambda>l. snd (parse_lvm_vars l) = 8) (g_strsplit output newline 0) of
           Some l \<Rightarrow> (Some (get_vg_data_from_table strtoull (fst (parse_lvm_vars l))), None)
         | None \<Rightarrow> (None, Some \<lparr>domain = BD_LVM_ERROR, code = BD_LVM_ERROR_PARSE,
                                message = ''Failed to parse information about the VG''\<rparr>)))
   \<and> (exec (lvm_argv (global_config_str s) (lvs_args @ [vg @ ''/'' @ lv])) = Inr output \<longrightarrow>
      snd (bd_lvm_lvinfo exec strtoull vg lv s) =
        (case find (\<lambda>l. snd (parse_lvm_vars l) = 6) (g_strsplit output newline 0) of
           Some l \<Rightarrow> (Some (get_lv_data_from_table strtoull (fst (parse_lvm_vars l))), None)
         | None \<Rightarrow> (None, Some \<lparr>domain = BD_LVM_ERROR, code = BD_LVM_ERROR_PARSE,
                                message = ''Failed to parse information about the LV''\<rparr>)))
   \<and> ((\<forall>x \<in> set pre. snd (parse_lvm_vars x) \<noteq> n) \<and> snd (parse_lvm_vars line) = n \<longrightarrow>
        find (\<lambda>l. snd (parse_lvm_vars l) = n) (pre @ line # suf) = Some line)
   \<and> get_pv_data_from_table strtoull table =
       \<lparr>pv_name = table ''LVM2_PV_NAME'',
        pv_uuid = table ''LVM2_PV_UUID'',
        pe_start = (case table ''LVM2_PE_START'' of Some v \<Rightarrow> strtoull v | None \<Rightarrow> 0),
        vg_name = table ''LVM2_VG_NAME'',
        vg_uuid = table ''LVM2_VG_UUID'',
        vg_size = (case table ''LVM2_VG_SIZE'' of Some v \<Rightarrow> strtoull v | None \<Rightarrow> 0),
        vg_free = (case table ''LVM2_VG_FREE'' of Some v \<Rightarrow> strtoull v | None \<Rightarrow> 0),
        vg_extent_size = (case table ''LVM2_VG_EXTENT_SIZE'' of Some v \<Rightarrow> strtoull v | None \<Rightarrow> 0),
        vg_extent_count = (case table ''LVM2_VG_EXTENT_COUNT'' of Some v \<Rightarrow> strtoull v | None \<Rightarrow> 0),
        vg_free_count = (case table ''LVM2_VG_FREE_COUNT'' of Some v \<Rightarrow> strtoull v | None \<Rightarrow> 0),
        vg_pv_count = (case table ''LVM2_PV_COUNT'' of Some v \<Rightarrow> strtoull v | None \<Rightarrow> 0)\<rparr>
   \<and> get_vg_data_from_table strtoull table =
       \<lparr>name_vg = table ''LVM2_VG_NAME'',
        uuid_vg = table ''LVM2_VG_UUID'',
        size_vg = (case table ''LVM2_VG_SIZE'' of Some v \<Rightarrow> strtoull v | None \<Rightarrow> 0),
        free_vg = (case table ''LVM2_VG_FREE'' of Some v \<Rightarrow> strtoull v | None \<Rightarrow> 0),
        extent_size_vg = (case table ''LVM2_VG_EXTENT_SIZE'' of Some v \<Rightarrow> strtoull v | None \<Rightarrow> 0),
        extent_count_vg = (case table ''LVM2_VG_EXTENT_COUNT'' of Some v \<Rightarrow> strtoull v | None \<Rightarrow> 0),
        free_count_vg = (case table ''LVM2_VG_FREE_COUNT'' of Some v \<Rightarrow> strtoull v | None \<Rightarrow> 0),
        pv_count_vg = (case table ''LVM2_PV_COUNT'' of Some v \<Rightarrow> strtoull v | None \<Rightarrow> 0)\<rparr>
   \<and> get_lv_data_from_table strtoull table =
       \<lparr>lv_name = table ''LVM2_LV_NAME'',
        vg_name_lv = table ''LVM2_VG_NAME'',
        uuid_lv = table ''LVM2_LV_UUID'',
        size_lv = (case table ''LVM2_LV_SIZE'' of Some v \<Rightarrow> strtoull v | None \<Rightarrow> 0),
        attr_lv = table ''LVM2_LV_ATTR'',
        segtype_lv = table ''LVM2_SEGTYPE''\<rparr>"
proof (intro conjI impI)
  assume "(\<forall>x \<in> set pre. snd (parse_lvm_vars x) \<noteq> n) \<and> snd (parse_lvm_vars line) = n"
  then show "find (\<lambda>l. snd (parse_lvm_vars l) = n) (pre @ line # suf) = Some line"
    by (induction pre) auto
next
  show "get_pv_data_from_table strtoull table =
       \<lparr>pv_name = table ''LVM2_PV_NAME'',
        pv_uuid = table ''LVM2_PV_UUID'',
        pe_start = (case table ''LVM2_PE_START'' of Some v \<Rightarrow> strtoull v | None \<Rightarrow> 0),
        vg_name = table ''LVM2_VG_NAME'',
        vg_uuid = table ''LVM2_VG_UUID'',
        vg_size = (case table ''LVM2_VG_SIZE'' of Some v \<Rightarrow> strtoull v | None \<Rightarrow> 0),
        vg_free = (case table ''LVM2_VG_FREE'' of Some v \<Rightarrow> strtoull v | None \<Rightarrow> 0),
        vg_extent_size = (case table ''LVM2_VG_EXTENT_SIZE'' of Some v \<Rightarrow> strtoull v | None \<Rightarrow> 0),
        vg_extent_count = (case table ''LVM2_VG_EXTENT_COUNT'' of Some v \<Rightarrow> strtoull v | None \<Rightarrow> 0),
        vg_free_count = (case table ''LVM2_VG_FREE_COUNT'' of Some v \<Rightarrow> strtoull v | None \<Rightarrow> 0),
        vg_pv_count = (case table ''LVM2_PV_COUNT'' of Some v \<Rightarrow> strtoull v | None \<Rightarrow> 0)\<rparr>"
    by (simp only: get_pv_data_from_table_def lookup_uint64_def)
next
  show "get_vg_data_from_table strtoull table =
       \<lparr>name_vg = table ''LVM2_VG_NAME'',
        uuid_vg = table ''LVM2_VG_UUID'',
        size_vg = (case table ''LVM2_VG_SIZE'' of Some v \<Rightarrow> strtoull v | None \<Rightarrow> 0),
        free_vg = (case table ''LVM2_VG_FREE'' of Some v \<Rightarrow> strtoull v | None \<Rightarrow> 0),
        extent_size_vg = (case table ''LVM2_VG_EXTENT_SIZE'' of Some v \<Rightarrow> strtoull v | None \<Rightarrow> 0),
        extent_count_vg = (case table ''LVM2_VG_EXTENT_COUNT'' of Some v \<Rightarrow> strtoull v | None \<Rightarrow> 0),
        free_count_vg = (case table ''LVM2_VG_FREE_COUNT'' of Some v \<Rightarrow> strtoull v | None \<Rightarrow> 0),
        pv_count_vg = (case table ''LVM2_PV_COUNT'' of Some v \<Rightarrow> strtoull v | None \<Rightarrow> 0)\<rparr>"
    by (simp only: get_vg_data_from_table_def lookup_uint64_def)
next
  show "get_lv_data_from_table strtoull table =
       \<lparr>lv_name = table ''LVM2_LV_NAME'',
        vg_name_lv = table ''LVM2_VG_NAME'',
        uuid_lv = table ''LVM2_LV_UUID'',
        size_lv = (case table ''LVM2_LV_SIZE'' of Some v \<Rightarrow> strtoull v | None \<Rightarrow> 0),
        attr_lv = table ''LVM2_LV_ATTR'',
        segtype_lv = table ''LVM2_SEGTYPE''\<rparr>"
    by (simp only: get_lv_data_from_table_def lookup_uint64_def)
qed (erule pvinfo_success vginfo_success lvinfo_success)+

lemmas strtoull_eval = g_ascii_strtoull_def number_prefix_def starts_number_def digit_of_def
  ISSPACE_def G_MAXUINT64_def Let_def

lemma pv_info_tokens:
  "key_value_tokens (g_strsplit_set pv_info_line lvm_vars_delimiters 0) =
     [(''LVM2_PV_NAME'', ''/dev/sda1''), (''LVM2_PV_UUID'', ''abc''), (''LVM2_PE_START'', ''2048''),
      (''LVM2_VG_NAME'', ''vg''), (''LVM2_VG_UUID'', ''def''),
      (''LVM2_VG_SIZE'', ''4096''), (''LVM2_VG_FREE'', ''1024''), (''LVM2_VG_EXTENT_SIZE'', ''4''),
      (''LVM2_VG_EXTENT_COUNT'', ''1024''), (''LVM2_VG_FREE_COUNT'', ''256''), (''LVM2_PV_COUNT'', ''1'')]"
  by (simp add: pv_info_line_def g_strsplit_set_def lvm_vars_delimiters_def G_MAXINT_def
      key_value_tokens_def token_has_eq_def token_key_def token_value_def)

lemma pv_info_count: "snd (parse_lvm_vars pv_info_line) = 11"
  by (simp add: parse_lvm_vars_map_of pv_info_tokens)

lemma split_pv_output: "g_strsplit (pv_info_line @ [newline]) newline 0 = [pv_info_line, []]"
  by (simp add: g_strsplit_def pv_info_line_def newline_def G_MAXINT_def)

lemma numbers: "g_ascii_strtoull ''2048'' = 2048" "g_ascii_strtoull ''4096'' = 4096"
  "g_ascii_strtoull ''1024'' = 1024" "g_ascii_strtoull ''4'' = 4" "g_ascii_strtoull ''256'' = 256"
  "g_ascii_strtoull ''1'' = 1"
  by (simp_all add: strtoull_eval)

lemma pv_info_record:
  "get_pv_data_from_table g_ascii_strtoull (fst (parse_lvm_vars pv_info_line)) =
     \<lparr>pv_name = Some ''/dev/sda1'', pv_uuid = Some ''abc'', pe_start = 2048, vg_name = Some ''vg'',
      vg_uuid = Some ''def'', vg_size = 4096, vg_free = 1024, vg_extent_size = 4,
      vg_extent_count = 1024, vg_free_count = 256, vg_pv_count = 1\<rparr>"
  by (simp add: parse_lvm_vars_map_of pv_info_tokens get_pv_data_from_table_def lookup_uint64_def
      numbers)

lemma vg_tokens:
  "key_value_tokens (g_strsplit_set vg_line lvm_vars_delimiters 0) =
     [(''LVM2_VG_NAME'', ''vg''), (''LVM2_VG_UUID'', ''def''),
      (''LVM2_VG_SIZE'', ''4096''), (''LVM2_VG_FREE'', ''1024''), (''LVM2_VG_EXTENT_SIZE'', ''4''),
      (''LVM2_VG_EXTENT_COUNT'', ''1024''), (''LVM2_VG_FREE_COUNT'', ''256''), (''LVM2_PV_COUNT'', ''1'')]"
  by (simp add: vg_line_def g_strsplit_set_def lvm_vars_delimiters_def G_MAXINT_def
      key_value_tokens_def token_has_eq_def token_key_def token_value_def)

lemma vg_count: "snd (parse_lvm_vars vg_line) = 8"
  by (simp add: parse_lvm_vars_map_of vg_tokens)

lemma split_vg_output: "g_strsplit vg_line newline 0 = [vg_line]"
  by (simp add: g_strsplit_def vg_line_def newline_def G_MAXINT_def)

lemma vg_record:
  "get_vg_data_from_table g_ascii_strtoull (fst (parse_lvm_vars vg_line)) =
     \<lparr>name_vg = Some ''vg'', uuid_vg = Some ''def'', size_vg = 4096, free_vg = 1024,
      extent_size_vg = 4, extent_count_vg = 1024, free_count_vg = 256, pv_count_vg = 1\<rparr>"
  by (simp add: parse_lvm_vars_map_of vg_tokens get_vg_data_from_table_def lookup_uint64_def
      numbers)

lemma split_lv_output:
  "g_strsplit lv_output newline 0 = [''  WARNING: lvmetad is not running'', lv_root_line, lv_swap_line, []]"
  by (simp add: g_strsplit_def lv_output_def lv_root_line_def lv_swap_line_def newline_def G_MAXINT_def)

lemma warning_count: "snd (parse_lvm_vars ''  WARNING: lvmetad is not running'') = 0"
  by (simp add: parse_lvm_vars_map_of g_strsplit_set_def lvm_vars_delimiters_def G_MAXINT_def
      key_value_tokens_def token_has_eq_def)

lemma lv_root_tokens:
  "key_value_tokens (g_strsplit_set lv_root_line lvm_vars_delimiters 0) =
     [(''LVM2_VG_NAME'', ''vg''), (''LVM2_LV_NAME'', ''root''), (''LVM2_LV_UUID'', ''u1''),
      (''LVM2_LV_SIZE'', ''1024''), (''LVM2_LV_ATTR'', ''-wi-ao----''), (''LVM2_SEGTYPE'', ''linear'')]"
  by (simp add: lv_root_line_def g_strsplit_set_def lvm_vars_delimiters_def G_MAXINT_def
      key_value_tokens_def token_has_eq_def token_key_def token_value_def)

lemma lv_root_count: "snd (parse_lvm_vars lv_root_line) = 6"
  by (simp add: parse_lvm_vars_map_of lv_root_tokens)

lemma lv_root_record:
  "get_lv_data_from_table g_ascii_strtoull (fst (parse_lvm_vars lv_root_line)) =
     \<lparr>lv_name = Some ''root'', vg_name_lv = Some ''vg'', uuid_lv = Some ''u1'', size_lv = 1024,
      attr_lv = Some ''-wi-ao----'', segtype_lv = Some ''linear''\<rparr>"
  by (simp add: parse_lvm_vars_map_of lv_root_tokens get_lv_data_from_table_def lookup_uint64_def
      numbers)

theorem fetch_one_record_witness:
  "exec_prints (pv_info_line @ [newline])
     (lvm_argv (global_config_str lvm_initial_state) (pvs_args @ opt_arg (Some ''/dev/sda1'')))
     = Inr (pv_info_line @ [newline])
   \<and> exec_prints vg_line (lvm_argv (global_config_str lvm_initial_state) (vgs_args @ [''vg''])) = Inr vg_line
   \<and> exec_prints lv_output (lvm_argv (global_config_str lvm_initial_state) (lvs_args @ [''vg'' @ ''/'' @ ''root'']))
     = Inr lv_output
   \<and> snd (parse_lvm_vars ''  WARNING: lvmetad is not running'') \<noteq> 6
   \<and> snd (parse_lvm_vars lv_root_line) = 6
   \<and> snd (bd_lvm_pvinfo (exec_prints (pv_info_line @ [newline])) g_ascii_strtoull (Some ''/dev/sda1'')
            lvm_initial_state) =
       (Some \<lparr>pv_name = Some ''/dev/sda1'', pv_uuid = Some ''abc'', pe_start = 2048,
              vg_name = Some ''vg'', vg_uuid = Some ''def'', vg_size = 4096, vg_free = 1024,
              vg_extent_size = 4, vg_extent_count = 1024, vg_free_count = 256, vg_pv_count = 1\<rparr>,
        None)
   \<and> snd (bd_lvm_vginfo (exec_prints vg_line) g_ascii_strtoull ''vg'' lvm_initial_state) =
       (Some \<lparr>name_vg = Some ''vg'', uuid_vg = Some ''def'', size_vg = 4096, free_vg = 1024,
              extent_size_vg = 4, extent_count_vg = 1024, free_count_vg = 256, pv_count_vg = 1\<rparr>,
        None)
   \<and> snd (bd_lvm_lvinfo (exec_prints lv_output) g_ascii_strtoull ''vg'' ''root'' lvm_initial_state) =
       (Some \<lparr>lv_name = Some ''root'', vg_name_lv = Some ''vg'', uuid_lv = Some ''u1'', size_lv = 1024,
              attr_lv = Some ''-wi-ao----'', segtype_lv = Some ''linear''\<rparr>, None)
   \<and> snd (bd_lvm_lvinfo (exec_prints ''no records here'') g_ascii_strtoull ''vg'' ''root'' lvm_initial_state) =
       (None, Some \<lparr>domain = BD_LVM_ERROR, code = BD_LVM_ERROR_PARSE,
                    message = ''Failed to parse information about the LV''\<rparr>)"
proof -
  have p: "\<And>out argv. exec_prints out argv = Inr out" by (simp add: exec_prints_def)
  have pre: "\<forall>x \<in> set [''  WARNING: lvmetad is not running'']. snd (parse_lvm_vars x) \<noteq> 6"
    by (simp add: warning_count)
  have w: "snd (parse_lvm_vars ''  WARNING: lvmetad is not running'') \<noteq> 6"
    by (simp add: warning_count)
  note PV = fetch_one_record [of "exec_prints (pv_info_line @ [newline])" lvm_initial_state
      "Some ''/dev/sda1''" "pv_info_line @ [newline]",
      THEN conjunct1, rule_format, OF p]
  note VG = fetch_one_record [of "exec_prints vg_line" lvm_initial_state _ vg_line _ "''vg''",
      THEN conjunct2, THEN conjunct1, rule_format, OF p]
  note LV = fetch_one_record [of "exec_prints lv_output" lvm_initial_state _ lv_output _ "''vg''" "''root''",
      THEN conjunct2, THEN conjunct2, THEN conjunct1, rule_format, OF p]
  note NONE = fetch_one_record [of "exec_prints ''no records here''" lvm_initial_state _
      "''no records here''" _ "''vg''" "''root''",
      THEN conjunct2, THEN conjunct2, THEN conjunct1, rule_format, OF p]
  note FIRST = fetch_one_record [of _ _ _ _ _ _ _ "[''  WARNING: lvmetad is not running'']" 6
      lv_root_line "[lv_swap_line, []]",
      THEN conjunct2, THEN conjunct2, THEN conjunct2, THEN conjunct1, rule_format,
      OF conjI [OF pre lv_root_count]]
  have 1: "snd (bd_lvm_pvinfo (exec_prints (pv_info_line @ [newline])) g_ascii_strtoull (Some ''/dev/sda1'')
            lvm_initial_state) =
       (Some \<lparr>pv_name = Some ''/dev/sda1'', pv_uuid = Some ''abc'', pe_start = 2048,
              vg_name = Some ''vg'', vg_uuid = Some ''def'', vg_size = 4096, vg_free = 1024,
              vg_extent_size = 4, vg_extent_count = 1024, vg_free_count = 256, vg_pv_count = 1\<rparr>,
        None)"
    by (simp add: PV split_pv_output pv_info_count pv_info_record)
  have 2: "snd (bd_lvm_vginfo (exec_prints vg_line) g_ascii_strtoull ''vg'' lvm_initial_state) =
       (Some \<lparr>name_vg = Some ''vg'', uuid_vg = Some ''def'', size_vg = 4096, free_vg = 1024,
              extent_size_vg = 4, extent_count_vg = 1024, free_count_vg = 256, pv_count_vg = 1\<rparr>,
        None)"
    by (simp add: VG split_vg_output vg_count vg_record)
  have "find (\<lambda>l. snd (parse_lvm_vars l) = 6)
          [''  WARNING: lvmetad is not running'', lv_root_line, lv_swap_line, []] = Some lv_root_line"
    using FIRST by simp
  then have 3: "snd (bd_lvm_lvinfo (exec_prints lv_output) g_ascii_strtoull ''vg'' ''root'' lvm_initial_state) =
       (Some \<lparr>lv_name = Some ''root'', vg_name_lv = Some ''vg'', uuid_lv = Some ''u1'', size_lv = 1024,
              attr_lv = Some ''-wi-ao----'', segtype_lv = Some ''linear''\<rparr>, None)"
    by (simp only: LV split_lv_output lv_root_record option.case)
  have none_lines: "g_strsplit ''no records here'' newline 0 = [''no records here'']"
    by (simp add: g_strsplit_def newline_def G_MAXINT_def)
  have none_count: "snd (parse_lvm_vars ''no records here'') = 0"
    by (simp add: parse_lvm_vars_map_of g_strsplit_set_def lvm_vars_delimiters_def G_MAXINT_def
      key_value_tokens_def token_has_eq_def)
  have 4: "snd (bd_lvm_lvinfo (exec_prints ''no records here'') g_ascii_strtoull ''vg'' ''root'' lvm_initial_state) =
       (None, Some \<lparr>domain = BD_LVM_ERROR, code = BD_LVM_ERROR_PARSE,
                    message = ''Failed to parse information about the LV''\<rparr>)"
    by (simp add: NONE none_lines none_count)
  show ?thesis
    by (intro conjI p w lv_root_count 1 2 3 4)
qed

section \<open>Properties of the Btrfs plugin\<close>

lemma check_devices_missing:
  "\<exists>d \<in> set devs. \<not> exists d \<Longrightarrow> \<exists>d. check_devices exists devs n = Inl d \<and> d \<in> set devs \<and> \<not> exists d"
  by (induction devs arbitrary: n) auto

lemma check_devices_all:
  "\<forall>d \<in> set devs. exists d \<Longrightarrow> check_devices exists devs n = Inr (n + of_nat (length devs))"
  by (induction devs arbitrary: n) (auto simp: algebra_simps)

text \<open>
  Claim C9. When the device list of \<^verbatim>\<open>bd_btrfs_create_volume\<close> (or of its alias
  \<^verbatim>\<open>bd_btrfs_mkfs\<close>) is \<^verbatim>\<open>NULL\<close> or empty, or names a device that does not exist,
  the function returns \<^verbatim>\<open>FALSE\<close> with a \<^verbatim>\<open>BD_BTRFS_ERROR_DEVICE\<close> error and runs no
  command.
\<close>

theorem create_volume_device_errors:
  assumes "devices = None \<or> devices = Some [] \<or> (\<exists>devs. devices = Some devs \<and> (\<exists>d \<in> set devs. \<not> exists d))"
  shows "\<exists>msg. bd_btrfs_create_volume exists exec devices label data_level md_level =
           Some (False, Some \<lparr>domain = BD_BTRFS_ERROR, code = BD_BTRFS_ERROR_DEVICE, message = msg\<rparr>, [])
         \<and> bd_btrfs_mkfs exists exec devices label data_level md_level =
           Some (False, Some \<lparr>domain = BD_BTRFS_ERROR, code = BD_BTRFS_ERROR_DEVICE, message = msg\<rparr>, [])"
proof -
  consider (null) "devices = None" | (empty) "devices = Some []"
    | (missing) devs where "devices = Some devs" "devs \<noteq> []" "\<exists>d \<in> set devs. \<not> exists d"
    using assms by fastforce
  then show ?thesis
  proof cases
    case null
    then show ?thesis
      by (simp add: bd_btrfs_mkfs_def bd_btrfs_create_volume_def device_error_def g_set_error_def)
  next
    case empty
    then show ?thesis
      by (simp add: bd_btrfs_mkfs_def bd_btrfs_create_volume_def device_error_def g_set_error_def)
  next
    case missing
    from check_devices_missing [OF missing(3), of 0]
    obtain d where "check_devices exists devs 0 = Inl d" by blast
    with missing(1,2) show ?thesis
      by (simp add: bd_btrfs_mkfs_def bd_btrfs_create_volume_def device_error_def g_set_error_def)
  qed
qed

theorem create_volume_device_errors_witness:
  "''/dev/missing'' \<in> set [''/dev/sda'', ''/dev/missing'']
   \<and> \<not> only_sda ''/dev/missing''
   \<and> (\<exists>msg. bd_btrfs_create_volume only_sda exec_ok (Some [''/dev/sda'', ''/dev/missing'']) None None None =
           Some (False, Some \<lparr>domain = BD_BTRFS_ERROR, code = BD_BTRFS_ERROR_DEVICE, message = msg\<rparr>, [])
         \<and> bd_btrfs_mkfs only_sda exec_ok (Some [''/dev/sda'', ''/dev/missing'']) None None None =
           Some (False, Some \<lparr>domain = BD_BTRFS_ERROR, code = BD_BTRFS_ERROR_DEVICE, message = msg\<rparr>, []))
   \<and> bd_btrfs_create_volume only_sda exec_ok (Some [''/dev/sda'', ''/dev/missing'']) None None None =
       Some (False, Some \<lparr>domain = BD_BTRFS_ERROR, code = BD_BTRFS_ERROR_DEVICE,
                          message = ''Device /dev/missing does not exist''\<rparr>, [])
   \<and> bd_btrfs_create_volume only_sda exec_ok (Some [''/dev/sda'']) (Some ''data'') None None =
       Some (True, None, [[''mkfs.btrfs'', ''--label'', ''data'', ''/dev/sda'']])"
proof -
  have h: "Some [''/dev/sda'', ''/dev/missing''] = None \<or> Some [''/dev/sda'', ''/dev/missing''] = Some []
     \<or> (\<exists>devs. Some [''/dev/sda'', ''/dev/missing''] = Some devs \<and> (\<exists>d \<in> set devs. \<not> only_sda d))"
    by (simp add: only_sda_def)
  note m = create_volume_device_errors [OF h, of exec_ok None None None]
  have e: "bd_btrfs_create_volume only_sda exec_ok (Some [''/dev/sda'', ''/dev/missing'']) None None None =
       Some (False, Some \<lparr>domain = BD_BTRFS_ERROR, code = BD_BTRFS_ERROR_DEVICE,
                          message = ''Device /dev/missing does not exist''\<rparr>, [])"
    by (simp add: bd_btrfs_create_volume_def only_sda_def device_error_def g_set_error_def)
  have ok: "bd_btrfs_create_volume only_sda exec_ok (Some [''/dev/sda'']) (Some ''data'') None None =
       Some (True, None, [[''mkfs.btrfs'', ''--label'', ''data'', ''/dev/sda'']])"
    by (simp add: bd_btrfs_create_volume_def only_sda_def named_option_def exec_ok_def Let_def)
  have d: "''/dev/missing'' \<in> set [''/dev/sda'', ''/dev/missing'']" by simp
  have n: "\<not> only_sda ''/dev/missing''" by (simp add: only_sda_def)
  show ?thesis
    by (rule conjI [OF d conjI [OF n conjI [OF m conjI [OF e ok]]]])
qed

section \<open>Properties of initialisation\<close>

lemma set_discovery_order:
  "set (discovery_order known req) = {sp \<in> set req. name sp \<in> set known}"
  by (auto simp: discovery_order_def)

lemma set_load_failures:
  "set (load_failures load specs) =
     {(name sp, reason) | sp reason. sp \<in> set specs \<and> load (name sp) (so_name sp) = Some reason}"
  by (auto simp: load_failures_def split: option.splits)

lemma failure_message_mentions:
  "(n, reason) \<in> set failures \<Longrightarrow> sublist n (failure_message failures)"
proof (induction failures)
  case Nil
  then show ?case by simp
next
  case (Cons f fs)
  show ?case
  proof (cases "f = (n, reason)")
    case True
    have "failure_message (f # fs) =
          ''Failed to load plugin '' @ n @ ('': '' @ reason @ ''; '' @ failure_message fs)"
      using True by (simp add: failure_message_def)
    then show ?thesis unfolding sublist_def by blast
  next
    case False
    with Cons have "sublist n (failure_message fs)" by simp
    then obtain ps ss where "failure_message fs = ps @ n @ ss" unfolding sublist_def by blast
    then have "failure_message (f # fs) =
          ((case f of (m, r) \<Rightarrow> ''Failed to load plugin '' @ m @ '': '' @ r @ ''; '') @ ps) @ n @ ss"
      by (simp add: failure_message_def)
    then show ?thesis unfolding sublist_def by blast
  qed
qed

text \<open>
  Claim C5, on the model of \<open>init\<close> taken from the specification. When the names of
  the required plugins are among the known backends and the module of at least one
  required plugin cannot be loaded, \<open>bd_init\<close> fails with
  \<^verbatim>\<open>BD_INIT_ERROR_PLUGINS_FAILED\<close>, and the name of every required plugin that could
  not be loaded occurs in the message.
\<close>

theorem init_reports_every_failure:
  assumes "\<forall>sp \<in> set require_plugins. name sp \<in> set known"
    and "\<exists>sp \<in> set require_plugins. load (name sp) (so_name sp) \<noteq> None"
  shows "\<exists>e. bd_init known load require_plugins = (False, Some e, [])
            \<and> domain e = BD_INIT_ERROR \<and> code e = BD_INIT_ERROR_PLUGINS_FAILED
            \<and> (\<forall>sp \<in> set require_plugins.
                  load (name sp) (so_name sp) \<noteq> None \<longrightarrow> sublist (name sp) (message e))"
proof -
  let ?specs = "discovery_order known require_plugins"
  let ?failures = "load_failures load ?specs"
  have specs: "set ?specs = set require_plugins"
    using assms(1) by (auto simp: set_discovery_order)
  have mem: "(name sp, reason) \<in> set ?failures"
    if "sp \<in> set require_plugins" "load (name sp) (so_name sp) = Some reason" for sp reason
    using that specs by (auto simp: set_load_failures)
  from assms(2) obtain sp0 r0 where "sp0 \<in> set require_plugins" "load (name sp0) (so_name sp0) = Some r0"
    by auto
  then have "(name sp0, r0) \<in> set ?failures" by (rule mem)
  then have nonempty: "?failures \<noteq> []" by auto
  have req: "require_plugins \<noteq> []" using assms(2) by auto
  let ?e = "\<lparr>domain = BD_INIT_ERROR, code = BD_INIT_ERROR_PLUGINS_FAILED,
             message = failure_message ?failures\<rparr>"
  have "bd_init known load require_plugins = (False, Some ?e, [])"
    using nonempty req by (simp add: bd_init_def Let_def)
  moreover have "\<forall>sp \<in> set require_plugins.
      load (name sp) (so_name sp) \<noteq> None \<longrightarrow> sublist (name sp) (message ?e)"
  proof (intro ballI impI)
    fix sp assume "sp \<in> set require_plugins" "load (name sp) (so_name sp) \<noteq> None"
    then obtain reason where "(name sp, reason) \<in> set ?failures" using mem by auto
    then show "sublist (name sp) (message ?e)" by (simp add: failure_message_mentions)
  qed
  ultimately show ?thesis by simp
qed

lemma example_init:
  "bd_init example_known example_load example_specs =
     (False, Some \<lparr>domain = BD_INIT_ERROR, code = BD_INIT_ERROR_PLUGINS_FAILED,
                   message = ''Failed to load plugin btrfs: cannot open libbd_btrfs.so; '' @
                             ''Failed to load plugin crypto: cannot open libbd_crypto.so; ''\<rparr>, [])"
  by (simp add: bd_init_def example_known_def example_load_def example_specs_def discovery_order_def
      load_failures_def failure_message_def Let_def)

theorem init_reports_every_failure_witness:
  "set (map name example_specs) \<subseteq> set example_known
   \<and> (\<exists>sp \<in> set example_specs. example_load (name sp) (so_name sp) \<noteq> None)
   \<and> (\<exists>e. bd_init example_known example_load example_specs = (False, Some e, [])
            \<and> domain e = BD_INIT_ERROR \<and> code e = BD_INIT_ERROR_PLUGINS_FAILED
            \<and> (\<forall>sp \<in> set example_specs.
                  example_load (name sp) (so_name sp) \<noteq> None \<longrightarrow> sublist (name sp) (message e)))
   \<and> bd_init example_known example_load example_specs =
       (False, Some \<lparr>domain = BD_INIT_ERROR, code = BD_INIT_ERROR_PLUGINS_FAILED,
                     message = ''Failed to load plugin btrfs: cannot open libbd_btrfs.so; '' @
                               ''Failed to load plugin crypto: cannot open libbd_crypto.so; ''\<rparr>, [])"
proof -
  have h1: "\<forall>sp \<in> set example_specs. name sp \<in> set example_known"
    by (simp add: example_specs_def example_known_def)
  have h2: "\<exists>sp \<in> set example_specs. example_load (name sp) (so_name sp) \<noteq> None"
    by (simp add: example_specs_def example_load_def)
  have h0: "set (map name example_specs) \<subseteq> set example_known"
    by (simp add: example_specs_def example_known_def)
  show ?thesis
    by (rule conjI [OF h0 conjI [OF h2 conjI [OF init_reports_every_failure [OF h1 h2] example_init]]])
qed

end
